theory Spec2Isabelle
  imports Main
begin

section \<open>The database: tables of the PostgreSQL schema\<close>

text \<open>
  The worker keeps all of its state in PostgreSQL. A table is the list of its rows in
  insertion order, so \<open>ORDER BY created_at\<close> is the order of the list. Only the columns
  that the cart, checkout and webhook routes read or write are kept. A \<open>UUID\<close> is a
  number; \<open>uuid_generate_v4()\<close> is the counter \<open>next_uuid\<close>. Timestamps are not modelled.

  An \<open>INT\<close> column holds 32 bits (\<open>int4\<close> below). PostgreSQL never wraps: a statement
  that is given a number outside that range where an \<open>INT\<close> is expected, or whose
  arithmetic leaves the range, raises and changes nothing. Every statement below that
  writes an \<open>INT\<close> has that branch.

  The worker talks to the database through \<open>neon(env.DATABASE_URL)\<close>: every tagged
  template is one statement, sent and committed on its own. No route opens a
  transaction, so a statement that has run stays visible when a later one raises.
\<close>

type_synonym uuid = nat

definition int4 :: "int \<Rightarrow> bool" where
  "int4 i = (- 2147483648 \<le> i \<and> i \<le> 2147483647)"

record user_row =
  u_id :: uuid
  u_stripe_customer_id :: "string option"

record product_row =
  p_id :: uuid
  p_name :: string
  p_slug :: string
  p_image :: "string option"
  p_price_cents :: int
  p_is_active :: bool

record variant_row =
  v_id :: uuid
  v_name :: string
  v_price_cents :: "int option"
  v_stock_qty :: int

record cart_row =
  c_id :: uuid
  c_user_id :: "uuid option"
  c_session_token :: "string option"
  c_stripe_session_id :: "string option"

record cart_item_row =
  ci_id :: uuid
  ci_cart_id :: uuid
  ci_product_id :: uuid
  ci_variant_id :: "uuid option"
  ci_quantity :: int
  ci_price_cents :: int

datatype order_status =
  Pending | Payment_processing | Paid | Fulfilling | Shipped | Delivered | Cancelled | Refunded

record order_row =
  o_id :: uuid
  o_user_id :: "uuid option"
  o_status :: order_status
  o_stripe_session_id :: "string option"
  o_stripe_payment_intent_id :: "string option"
  o_subtotal_cents :: int
  o_total_cents :: int
  o_currency :: string
  o_customer_email :: string
  o_customer_name :: "string option"
  o_shipping_address :: string

record order_item_row =
  oi_id :: uuid
  oi_order_id :: uuid
  oi_product_id :: uuid
  oi_product_name :: string
  oi_quantity :: int
  oi_unit_price_cents :: int
  oi_total_cents :: int

text \<open>What PostgreSQL raises in the statements below: which rule of the schema was
  broken (for a constraint, its name as PostgreSQL derives it), or that a number left
  the \<open>INT\<close> range, or that a text is too long for its \<open>CHAR(n)\<close> column.\<close>

datatype pg_error =
  Not_null_violation string string
  | Unique_violation string
  | Foreign_key_violation string
  | Check_violation string
  | Numeric_value_out_of_range
  | String_data_right_truncation

text \<open>What the routes raise: Hono's \<open>HTTPException\<close> with its status and message, an
  error of the database driver, an error of the Stripe client with its message, or a
  JavaScript \<open>TypeError\<close>.

  \<open>err.message\<close> is a text. For an \<open>HTTPException\<close> and a Stripe error the model has
  the text itself. For a database error the text is the one PostgreSQL words for that
  error, and for a \<open>TypeError\<close> the one the JavaScript engine words: the model keeps
  which message it is, not its wording.\<close>

datatype error =
  HTTPException nat string
  | DbError pg_error
  | StripeError string
  | TypeError

datatype message_text =
  Text string
  | Pg_message pg_error
  | TypeError_message

fun message :: "error \<Rightarrow> message_text" where
  "message (HTTPException _ m) = Text m"
| "message (DbError e) = Pg_message e"
| "message (StripeError m) = Text m"
| "message TypeError = TypeError_message"

subsection \<open>Stripe objects\<close>

text \<open>
  The fields of a Checkout Session that \<open>processStripeEvent\<close> reads. \<open>cs_cart_id\<close> is
  \<open>session.metadata?.cart_id\<close>; \<open>cs_user_id\<close> is \<open>None\<close> when the metadata says
  \<open>'anonymous'\<close>. The shipping address is kept as its JSON text.
\<close>

record checkout_session =
  cs_id :: string
  cs_cart_id :: "uuid option"
  cs_user_id :: "uuid option"
  cs_payment_intent :: "string option"
  cs_amount_subtotal :: "int option"
  cs_amount_total :: "int option"
  cs_currency :: "string option"
  cs_customer_email :: "string option"
  cs_customer_name :: "string option"
  cs_shipping_address :: "string option"
  cs_customer :: "string option"

text \<open>A line item of the retrieved session, with \<open>price.product\<close> expanded:
  \<open>li_product_id\<close> and \<open>li_variant_id\<close> are the product's metadata; an absent or empty
  (falsy) entry is \<open>None\<close>.\<close>

record line_item =
  li_description :: "string option"
  li_quantity :: "int option"
  li_unit_amount :: "int option"
  li_product_id :: "uuid option"
  li_variant_id :: "uuid option"

text \<open>The event's \<open>type\<close> with its \<open>data.object\<close>: the three kinds the switch handles
  (a charge carries its payment intent, which can be null), and any other type.\<close>

datatype event_data =
  Checkout_session_completed checkout_session
  | Payment_intent_payment_failed string
  | Charge_refunded "string option"
  | Other_event string

record stripe_event =
  ev_id :: string
  ev_data :: event_data

fun event_type :: "event_data \<Rightarrow> string" where
  "event_type (Checkout_session_completed _) = ''checkout.session.completed''"
| "event_type (Payment_intent_payment_failed _) = ''payment_intent.payment_failed''"
| "event_type (Charge_refunded _) = ''charge.refunded''"
| "event_type (Other_event t) = t"

record webhook_event_row =
  we_id :: string
  we_type :: string
  we_payload :: stripe_event
  we_error :: "message_text option"

record db =
  users :: "user_row list"
  products :: "product_row list"
  variants :: "variant_row list"
  carts :: "cart_row list"
  cart_items :: "cart_item_row list"
  orders :: "order_row list"
  order_items :: "order_item_row list"
  stripe_webhook_events :: "webhook_event_row list"
  next_uuid :: nat

section \<open>Cart routes\<close>

text \<open>What a handler sees of the request: the user that \<open>optionalAuth\<close> set, the
  \<open>X-Cart-Token\<close> header, and the value \<open>crypto.randomUUID()\<close> returns in it.\<close>

record request_ctx =
  rq_userId :: "uuid option"
  rq_cart_token :: "string option"
  rq_randomUUID :: string

text \<open>\<open>INSERT INTO carts (...) VALUES (...) RETURNING *\<close>; \<open>user_id\<close> references
  \<open>users(id)\<close>.\<close>

definition sql_insert_cart :: "uuid option \<Rightarrow> string option \<Rightarrow> db \<Rightarrow> (error + cart_row) \<times> db" where
  "sql_insert_cart uid tok d =
     (if (case uid of None \<Rightarrow> False | Some u \<Rightarrow> find (\<lambda>x. u_id x = u) (users d) = None)
      then (Inl (DbError (Foreign_key_violation ''carts_user_id_fkey'')), d)
      else
        (let row = \<lparr>c_id = next_uuid d, c_user_id = uid, c_session_token = tok,
                    c_stripe_session_id = None\<rparr>
         in (Inr row, d\<lparr>carts := carts d @ [row], next_uuid := Suc (next_uuid d)\<rparr>)))"

definition insert_cart_row :: "uuid option \<Rightarrow> string option \<Rightarrow> db \<Rightarrow> (error + cart_row option) \<times> db" where
  "insert_cart_row uid tok d =
     (case sql_insert_cart uid tok d of
        (Inl e, d') \<Rightarrow> (Inl e, d')
      | (Inr row, d') \<Rightarrow> (Inr (Some row), d'))"

text \<open>\<open>resolveCart(c, sql, create)\<close>. A user's cart is the one created last; an
  anonymous cart is the first whose token matches; an empty token is falsy.\<close>

definition resolveCart :: "request_ctx \<Rightarrow> bool \<Rightarrow> db \<Rightarrow> (error + cart_row option) \<times> db" where
  "resolveCart c create d =
     (case rq_userId c of
        Some userId \<Rightarrow>
          (case rev (filter (\<lambda>r. c_user_id r = Some userId) (carts d)) of
             cartRow # _ \<Rightarrow> (Inr (Some cartRow), d)
           | [] \<Rightarrow> if create then insert_cart_row (Some userId) None d else (Inr None, d))
      | None \<Rightarrow>
          (if rq_cart_token c \<noteq> None \<and> rq_cart_token c \<noteq> Some []
           then
             (case filter (\<lambda>r. c_session_token r = rq_cart_token c) (carts d) of
                cartRow # _ \<Rightarrow> (Inr (Some cartRow), d)
              | [] \<Rightarrow> if create then insert_cart_row None (rq_cart_token c) d else (Inr None, d))
           else if create then insert_cart_row None (Some (rq_randomUUID c)) d
           else (Inr None, d)))"

text \<open>\<open>getCartWithItems(cartId, sql)\<close>: the cart's items joined with their product
  (inner join) and variant (left join), the subtotal and the item count. The two sums
  are JavaScript numbers; they are the exact sums as long as these stay below \<open>2^53\<close>,
  which is taken for granted here.\<close>

record snapshot_item =
  si_item :: cart_item_row
  si_product_name :: string
  si_product_slug :: string
  si_image :: "string option"
  si_variant_name :: "string option"

record cart_snapshot =
  sn_items :: "snapshot_item list"
  sn_subtotal :: int
  sn_item_count :: int

definition variant_name_of :: "uuid option \<Rightarrow> db \<Rightarrow> string option" where
  "variant_name_of vid d =
     (case vid of
        None \<Rightarrow> None
      | Some v \<Rightarrow> map_option v_name (find (\<lambda>x. v_id x = v) (variants d)))"

definition join_item :: "db \<Rightarrow> cart_item_row \<Rightarrow> snapshot_item option" where
  "join_item d ci =
     (case find (\<lambda>p. p_id p = ci_product_id ci) (products d) of
        None \<Rightarrow> None
      | Some p \<Rightarrow>
          Some \<lparr>si_item = ci, si_product_name = p_name p, si_product_slug = p_slug p,
                si_image = p_image p, si_variant_name = variant_name_of (ci_variant_id ci) d\<rparr>)"

definition getCartWithItems :: "uuid \<Rightarrow> db \<Rightarrow> cart_snapshot" where
  "getCartWithItems cartId d =
     (let items = List.map_filter (join_item d) (filter (\<lambda>ci. ci_cart_id ci = cartId) (cart_items d))
      in \<lparr>sn_items = items,
          sn_subtotal =
            foldl (\<lambda>s i. s + ci_price_cents (si_item i) * ci_quantity (si_item i)) 0 items,
          sn_item_count = foldl (\<lambda>s i. s + ci_quantity (si_item i)) 0 items\<rparr>)"

subsection \<open>POST /cart/items\<close>

text \<open>The JSON body; a missing or falsy \<open>product_id\<close> or \<open>variant_id\<close> is \<open>None\<close>, a
  missing \<open>quantity\<close> defaults to 1.\<close>

record add_item_body =
  b_product_id :: "uuid option"
  b_variant_id :: "uuid option"
  b_quantity :: "int option"

record add_item_response =
  ar_item :: cart_item_row
  ar_snapshot :: cart_snapshot
  ar_cart_token_header :: "string option"

text \<open>The block \<open>if (variant_id) { ... }\<close>: the variant must exist, its stock is
  compared with the requested quantity, and its price, when set, replaces the
  product's.\<close>

definition check_variant :: "uuid option \<Rightarrow> int \<Rightarrow> int \<Rightarrow> db \<Rightarrow> error + int" where
  "check_variant variant_id quantity price_cents d =
     (case variant_id of
        None \<Rightarrow> Inr price_cents
      | Some vid \<Rightarrow>
          (case find (\<lambda>v. v_id v = vid) (variants d) of
             None \<Rightarrow> Inl (HTTPException 404 ''Variant not found'')
           | Some variant \<Rightarrow>
               if v_stock_qty variant < quantity
               then Inl (HTTPException 400 ''Insufficient stock'')
               else (case v_price_cents variant of
                       None \<Rightarrow> Inr price_cents
                     | Some vp \<Rightarrow> Inr vp)))"

text \<open>
  \<open>INSERT INTO cart_items ... ON CONFLICT (cart_id, product_id, variant_id) DO UPDATE SET
  quantity = cart_items.quantity + q RETURNING *\<close>.
  The quantity and the price are \<open>INT\<close> parameters. The proposed row is checked against
  \<open>CHECK (quantity > 0)\<close> before the conflict is looked for. The arbiter is the
  constraint \<open>UNIQUE(cart_id, product_id, variant_id)\<close>: as in every unique constraint
  of PostgreSQL, a row whose \<open>variant_id\<close> is NULL conflicts with no row. On a conflict
  the sum has to stay an \<open>INT\<close> and the new row has to pass the check again. The
  references to the cart, the product and the variant hold, since the handler has just
  read all three.
\<close>

definition conflicts :: "uuid \<Rightarrow> uuid \<Rightarrow> uuid option \<Rightarrow> cart_item_row \<Rightarrow> bool" where
  "conflicts cartId product_id variant_id r =
     (ci_cart_id r = cartId \<and> ci_product_id r = product_id \<and>
      variant_id \<noteq> None \<and> ci_variant_id r = variant_id)"

definition sql_upsert_cart_item ::
  "uuid \<Rightarrow> uuid \<Rightarrow> uuid option \<Rightarrow> int \<Rightarrow> int \<Rightarrow> db \<Rightarrow> (error + cart_item_row) \<times> db" where
  "sql_upsert_cart_item cartId product_id variant_id quantity price_cents d =
     (if \<not> int4 quantity \<or> \<not> int4 price_cents
      then (Inl (DbError Numeric_value_out_of_range), d)
      else if \<not> quantity > 0
      then (Inl (DbError (Check_violation ''cart_items_quantity_check'')), d)
      else
        (case find (conflicts cartId product_id variant_id) (cart_items d) of
           Some old \<Rightarrow>
             if find (\<lambda>r. conflicts cartId product_id variant_id r \<and>
                          \<not> int4 (ci_quantity r + quantity)) (cart_items d) \<noteq> None
             then (Inl (DbError Numeric_value_out_of_range), d)
             else if find (\<lambda>r. conflicts cartId product_id variant_id r \<and>
                               \<not> ci_quantity r + quantity > 0) (cart_items d) \<noteq> None
             then (Inl (DbError (Check_violation ''cart_items_quantity_check'')), d)
             else
               (Inr (old\<lparr>ci_quantity := ci_quantity old + quantity\<rparr>),
                d\<lparr>cart_items :=
                     map (\<lambda>r. if conflicts cartId product_id variant_id r
                               then r\<lparr>ci_quantity := ci_quantity r + quantity\<rparr> else r)
                       (cart_items d)\<rparr>)
         | None \<Rightarrow>
             (let row = \<lparr>ci_id = next_uuid d, ci_cart_id = cartId, ci_product_id = product_id,
                         ci_variant_id = variant_id, ci_quantity = quantity,
                         ci_price_cents = price_cents\<rparr>
              in (Inr row, d\<lparr>cart_items := cart_items d @ [row],
                              next_uuid := Suc (next_uuid d)\<rparr>))))"

definition requested_quantity :: "add_item_body \<Rightarrow> int" where
  "requested_quantity body = (case b_quantity body of None \<Rightarrow> 1 | Some q \<Rightarrow> q)"

definition truthy :: "string option \<Rightarrow> bool" where
  "truthy s = (s \<noteq> None \<and> s \<noteq> Some [])"

definition cart_post_items ::
  "request_ctx \<Rightarrow> add_item_body \<Rightarrow> db \<Rightarrow> (error + add_item_response) \<times> db" where
  "cart_post_items c body d =
     (let quantity = requested_quantity body in
      case b_product_id body of
        None \<Rightarrow> (Inl (HTTPException 400 ''product_id required''), d)
      | Some product_id \<Rightarrow>
          (case find (\<lambda>p. p_id p = product_id \<and> p_is_active p) (products d) of
             None \<Rightarrow> (Inl (HTTPException 404 ''Product not found''), d)
           | Some product \<Rightarrow>
               (case check_variant (b_variant_id body) quantity (p_price_cents product) d of
                  Inl e \<Rightarrow> (Inl e, d)
                | Inr price_cents \<Rightarrow>
                    (case resolveCart c True d of
                       (Inl e, d1) \<Rightarrow> (Inl e, d1)
                     | (Inr None, d1) \<Rightarrow>
                         (Inl TypeError, d1)
                     | (Inr (Some cartRow), d1) \<Rightarrow>
                         (case (if b_variant_id body \<noteq> None
                                then sql_upsert_cart_item (c_id cartRow) product_id
                                       (b_variant_id body) quantity price_cents d1
                                else sql_upsert_cart_item (c_id cartRow) product_id
                                       None quantity price_cents d1) of
                            (Inl e, d2) \<Rightarrow> (Inl e, d2)
                          | (Inr item, d2) \<Rightarrow>
                              (Inr \<lparr>ar_item = item,
                                    ar_snapshot = getCartWithItems (c_id cartRow) d2,
                                    ar_cart_token_header =
                                      (if truthy (c_session_token cartRow)
                                       then c_session_token cartRow else None)\<rparr>,
                               d2))))))"

subsection \<open>PATCH and DELETE /cart/items/:itemId\<close>

text \<open>\<open>UPDATE cart_items SET quantity = ... WHERE id = itemId AND cart_id = ...\<close> after
  the check of the quantity (whose message ends in the sign for "at least", three
  UTF-8 bytes, and \<open>1\<close>); the quantity is an \<open>INT\<close> parameter. And
  \<open>DELETE FROM cart_items WHERE id = itemId AND cart_id = ...\<close>. Both answer with the
  recomputed snapshot; a cart that does not resolve is a 404.\<close>

definition quantity_message :: string where
  "quantity_message = ''quantity must be '' @ [CHR 0xE2, CHR 0x89, CHR 0xA5] @ '' 1''"

definition cart_patch_item ::
  "request_ctx \<Rightarrow> uuid \<Rightarrow> int \<Rightarrow> db \<Rightarrow> (error + cart_snapshot) \<times> db" where
  "cart_patch_item c itemId quantity d =
     (if quantity < 1 then (Inl (HTTPException 400 quantity_message), d)
      else
        (case resolveCart c False d of
           (Inl e, d1) \<Rightarrow> (Inl e, d1)
         | (Inr None, d1) \<Rightarrow> (Inl (HTTPException 404 ''Cart not found''), d1)
         | (Inr (Some cartRow), d1) \<Rightarrow>
             if \<not> int4 quantity then (Inl (DbError Numeric_value_out_of_range), d1)
             else
               (let d2 = d1\<lparr>cart_items :=
                            map (\<lambda>r. if ci_id r = itemId \<and> ci_cart_id r = c_id cartRow
                                      then r\<lparr>ci_quantity := quantity\<rparr> else r)
                              (cart_items d1)\<rparr>
                in (Inr (getCartWithItems (c_id cartRow) d2), d2))))"

definition cart_delete_item ::
  "request_ctx \<Rightarrow> uuid \<Rightarrow> db \<Rightarrow> (error + cart_snapshot) \<times> db" where
  "cart_delete_item c itemId d =
     (case resolveCart c False d of
        (Inl e, d1) \<Rightarrow> (Inl e, d1)
      | (Inr None, d1) \<Rightarrow> (Inl (HTTPException 404 ''Cart not found''), d1)
      | (Inr (Some cartRow), d1) \<Rightarrow>
          (let d2 = d1\<lparr>cart_items :=
                       filter (\<lambda>r. \<not> (ci_id r = itemId \<and> ci_cart_id r = c_id cartRow))
                         (cart_items d1)\<rparr>
           in (Inr (getCartWithItems (c_id cartRow) d2), d2)))"

section \<open>POST /checkout/session\<close>

text \<open>What is sent to \<open>stripe.checkout.sessions.create\<close> and what it returns. The
  Stripe client is a parameter of the handler; it can raise.\<close>

record stripe_line_item =
  sl_unit_amount :: int
  sl_name :: string
  sl_images :: "string list"
  sl_product_id :: uuid
  sl_variant_id :: "uuid option"
  sl_quantity :: int

record session_params =
  sp_line_items :: "stripe_line_item list"
  sp_customer :: "string option"
  sp_customer_creation_always :: bool
  sp_cart_id :: uuid
  sp_user_id :: "uuid option"
  sp_success_url :: string
  sp_cancel_url :: string

record stripe_session =
  ss_id :: string
  ss_url :: "string option"

text \<open>A cart line as Stripe is to show it: the product's name, followed by the
  variant's name after a spaced em dash (its three UTF-8 bytes) when there is one.\<close>

definition em_dash_separator :: string where
  "em_dash_separator = [CHR '' '', CHR 0xE2, CHR 0x80, CHR 0x94, CHR '' '']"

definition freeze_item :: "snapshot_item \<Rightarrow> stripe_line_item" where
  "freeze_item item =
     \<lparr>sl_unit_amount = ci_price_cents (si_item item),
      sl_name = si_product_name item @
        (if truthy (si_variant_name item)
         then em_dash_separator @ the (si_variant_name item) else []),
      sl_images = (case si_image item of None \<Rightarrow> [] | Some i \<Rightarrow> if i = [] then [] else [i]),
      sl_product_id = ci_product_id (si_item item),
      sl_variant_id = ci_variant_id (si_item item),
      sl_quantity = ci_quantity (si_item item)\<rparr>"

text \<open>The Stripe customer already stored for the signed-in user, if any.\<close>

definition stored_customer :: "uuid option \<Rightarrow> db \<Rightarrow> string option" where
  "stored_customer userId d =
     (case userId of
        None \<Rightarrow> None
      | Some u \<Rightarrow>
          (case find (\<lambda>x. u_id x = u) (users d) of
             None \<Rightarrow> None
           | Some user \<Rightarrow>
               if truthy (u_stripe_customer_id user) then u_stripe_customer_id user else None))"

text \<open>The handler: no cart or no items is \<open>400 Cart is empty\<close>; the session is
  requested from Stripe; then \<open>UPDATE carts SET stripe_session_id = ... WHERE id = ...\<close>.\<close>

definition checkout_post_session ::
  "(session_params \<Rightarrow> error + stripe_session) \<Rightarrow> request_ctx \<Rightarrow> string \<Rightarrow> string \<Rightarrow> db
     \<Rightarrow> (error + stripe_session) \<times> db" where
  "checkout_post_session sessions_create c success_url cancel_url d =
     (case resolveCart c False d of
        (Inl e, d1) \<Rightarrow> (Inl e, d1)
      | (Inr None, d1) \<Rightarrow> (Inl (HTTPException 400 ''Cart is empty''), d1)
      | (Inr (Some cartRow), d1) \<Rightarrow>
          (let items = sn_items (getCartWithItems (c_id cartRow) d1) in
           if items = [] then (Inl (HTTPException 400 ''Cart is empty''), d1)
           else
             (let customer = stored_customer (rq_userId c) d1 in
              case sessions_create
                     \<lparr>sp_line_items = map freeze_item items,
                      sp_customer = customer,
                      sp_customer_creation_always = (customer = None),
                      sp_cart_id = c_id cartRow,
                      sp_user_id = rq_userId c,
                      sp_success_url = success_url @ ''?session_id={CHECKOUT_SESSION_ID}'',
                      sp_cancel_url = cancel_url\<rparr> of
                Inl e \<Rightarrow> (Inl e, d1)
              | Inr session \<Rightarrow>
                  (Inr session,
                   d1\<lparr>carts :=
                        map (\<lambda>r. if c_id r = c_id cartRow
                                  then r\<lparr>c_stripe_session_id := Some (ss_id session)\<rparr> else r)
                          (carts d1)\<rparr>))))"

section \<open>POST /webhooks/stripe\<close>

subsection \<open>The statements of \<open>processStripeEvent\<close>\<close>

text \<open>\<open>INSERT INTO orders (...) VALUES (...) RETURNING id\<close>, with status \<open>'paid'\<close>.
  The two amounts are \<open>INT\<close> parameters. \<open>currency\<close> is \<open>CHAR(3)\<close>: a shorter text is
  padded with spaces, a longer one is refused unless only spaces are cut off.
  \<open>stripe_session_id\<close> and \<open>stripe_payment_intent_id\<close> are \<open>UNIQUE\<close> (a NULL payment
  intent conflicts with nothing) and \<open>user_id\<close> references \<open>users(id)\<close>.\<close>

definition toUpperCase :: "string \<Rightarrow> string" where
  \<comment> \<open>on the ASCII letters of a currency code\<close>
  "toUpperCase s =
     map (\<lambda>ch. if 97 \<le> (of_char ch :: nat) \<and> (of_char ch :: nat) \<le> 122
               then char_of ((of_char ch :: nat) - 32) else ch) s"

definition order_currency :: "checkout_session \<Rightarrow> string" where
  "order_currency session =
     (case cs_currency session of None \<Rightarrow> ''USD'' | Some cur \<Rightarrow> toUpperCase cur)"

definition char3 :: "string \<Rightarrow> string" where
  "char3 s = take 3 (s @ replicate 3 (CHR '' ''))"

definition order_subtotal :: "checkout_session \<Rightarrow> int" where
  "order_subtotal session = (case cs_amount_subtotal session of None \<Rightarrow> 0 | Some a \<Rightarrow> a)"

definition order_total :: "checkout_session \<Rightarrow> int" where
  "order_total session = (case cs_amount_total session of None \<Rightarrow> 0 | Some a \<Rightarrow> a)"

definition order_values :: "uuid \<Rightarrow> uuid option \<Rightarrow> checkout_session \<Rightarrow> order_row" where
  "order_values new_id userId session =
     \<lparr>o_id = new_id, o_user_id = userId, o_status = Paid,
      o_stripe_session_id = Some (cs_id session),
      o_stripe_payment_intent_id = cs_payment_intent session,
      o_subtotal_cents = order_subtotal session,
      o_total_cents = order_total session,
      o_currency = char3 (order_currency session),
      o_customer_email = (case cs_customer_email session of None \<Rightarrow> [] | Some m \<Rightarrow> m),
      o_customer_name = cs_customer_name session,
      o_shipping_address = (case cs_shipping_address session of None \<Rightarrow> ''{}'' | Some a \<Rightarrow> a)\<rparr>"

definition sql_insert_order :: "uuid option \<Rightarrow> checkout_session \<Rightarrow> db \<Rightarrow> (error + uuid) \<times> db" where
  "sql_insert_order userId session d =
     (if \<not> int4 (order_subtotal session) \<or> \<not> int4 (order_total session)
      then (Inl (DbError Numeric_value_out_of_range), d)
      else if \<not> list_all (\<lambda>ch. ch = CHR '' '') (drop 3 (order_currency session))
      then (Inl (DbError String_data_right_truncation), d)
      else if find (\<lambda>r. o_stripe_session_id r = Some (cs_id session)) (orders d) \<noteq> None
      then (Inl (DbError (Unique_violation ''orders_stripe_session_id_key'')), d)
      else if cs_payment_intent session \<noteq> None \<and>
              find (\<lambda>r. o_stripe_payment_intent_id r = cs_payment_intent session) (orders d) \<noteq> None
      then (Inl (DbError (Unique_violation ''orders_stripe_payment_intent_id_key'')), d)
      else if (case userId of None \<Rightarrow> False
               | Some u \<Rightarrow> find (\<lambda>x. u_id x = u) (users d) = None)
      then (Inl (DbError (Foreign_key_violation ''orders_user_id_fkey'')), d)
      else
        (Inr (next_uuid d),
         d\<lparr>orders := orders d @ [order_values (next_uuid d) userId session],
           next_uuid := Suc (next_uuid d)\<rparr>))"

text \<open>\<open>INSERT INTO order_items (...)\<close>: the quantity, the unit price and their product
  (worked out in JavaScript) are \<open>INT\<close> parameters; \<open>product_id\<close> is \<open>NOT NULL\<close> and
  references \<open>products(id)\<close>; the order has just been inserted.\<close>

definition li_qty :: "line_item \<Rightarrow> int" where
  "li_qty li = (case li_quantity li of None \<Rightarrow> 1 | Some q \<Rightarrow> q)"

definition li_amount :: "line_item \<Rightarrow> int" where
  "li_amount li = (case li_unit_amount li of None \<Rightarrow> 0 | Some a \<Rightarrow> a)"

definition order_item_values :: "uuid \<Rightarrow> uuid \<Rightarrow> uuid \<Rightarrow> line_item \<Rightarrow> order_item_row" where
  "order_item_values new_id order_id product_id li =
     \<lparr>oi_id = new_id, oi_order_id = order_id, oi_product_id = product_id,
      oi_product_name = (case li_description li of None \<Rightarrow> [] | Some s \<Rightarrow> s),
      oi_quantity = li_qty li,
      oi_unit_price_cents = li_amount li,
      oi_total_cents = li_amount li * li_qty li\<rparr>"

definition sql_insert_order_item :: "uuid \<Rightarrow> line_item \<Rightarrow> db \<Rightarrow> error option \<times> db" where
  "sql_insert_order_item order_id li d =
     (if \<not> int4 (li_qty li) \<or> \<not> int4 (li_amount li) \<or> \<not> int4 (li_amount li * li_qty li)
      then (Some (DbError Numeric_value_out_of_range), d)
      else
        (case li_product_id li of
           None \<Rightarrow> (Some (DbError (Not_null_violation ''order_items'' ''product_id'')), d)
         | Some pid \<Rightarrow>
             if find (\<lambda>p. p_id p = pid) (products d) = None
             then (Some (DbError (Foreign_key_violation ''order_items_product_id_fkey'')), d)
             else
               (None,
                d\<lparr>order_items := order_items d @ [order_item_values (next_uuid d) order_id pid li],
                  next_uuid := Suc (next_uuid d)\<rparr>)))"

text \<open>\<open>UPDATE variants SET stock_qty = GREATEST(0, stock_qty - q) WHERE id = vid\<close>: \<open>q\<close>
  is an \<open>INT\<close> parameter and the difference is worked out in \<open>INT\<close>.\<close>

definition sql_decrement_stock :: "uuid \<Rightarrow> int \<Rightarrow> db \<Rightarrow> error option \<times> db" where
  "sql_decrement_stock vid q d =
     (if \<not> int4 q \<or>
         find (\<lambda>v. v_id v = vid \<and> \<not> int4 (v_stock_qty v - q)) (variants d) \<noteq> None
      then (Some (DbError Numeric_value_out_of_range), d)
      else
        (None,
         d\<lparr>variants :=
             map (\<lambda>v. if v_id v = vid then v\<lparr>v_stock_qty := max 0 (v_stock_qty v - q)\<rparr> else v)
               (variants d)\<rparr>))"

text \<open>The loop \<open>for (const li of lineItems)\<close>: it stops at the first statement that
  raises, and what ran before stays.\<close>

fun settle_line_items :: "uuid \<Rightarrow> line_item list \<Rightarrow> db \<Rightarrow> error option \<times> db" where
  "settle_line_items order_id [] d = (None, d)"
| "settle_line_items order_id (li # lis) d =
     (case sql_insert_order_item order_id li d of
        (Some e, d1) \<Rightarrow> (Some e, d1)
      | (None, d1) \<Rightarrow>
          (case (case li_variant_id li of
                   None \<Rightarrow> (None, d1)
                 | Some vid \<Rightarrow> sql_decrement_stock vid (li_qty li) d1) of
             (Some e, d2) \<Rightarrow> (Some e, d2)
           | (None, d2) \<Rightarrow> settle_line_items order_id lis d2))"

text \<open>\<open>UPDATE users SET stripe_customer_id = ... WHERE id = userId\<close>, run when the
  session has both a user and a customer; \<open>stripe_customer_id\<close> is \<open>UNIQUE\<close>.\<close>

definition sql_link_customer :: "uuid \<Rightarrow> string \<Rightarrow> db \<Rightarrow> error option \<times> db" where
  "sql_link_customer userId customer d =
     (if find (\<lambda>x. u_id x = userId) (users d) \<noteq> None \<and>
         find (\<lambda>x. u_id x \<noteq> userId \<and> u_stripe_customer_id x = Some customer) (users d) \<noteq> None
      then (Some (DbError (Unique_violation ''users_stripe_customer_id_key'')), d)
      else
        (None,
         d\<lparr>users := map (\<lambda>x. if u_id x = userId
                               then x\<lparr>u_stripe_customer_id := Some customer\<rparr> else x)
                       (users d)\<rparr>))"

subsection \<open>\<open>processStripeEvent\<close>\<close>

text \<open>The result is the error raised, if any, and the database as the statements that
  ran have left it. \<open>sessions_retrieve\<close> is \<open>stripe.checkout.sessions.retrieve\<close> with the
  line items expanded: it raises, or returns the line items (absent: \<open>None\<close>).\<close>

definition processStripeEvent ::
  "(string \<Rightarrow> error + line_item list option) \<Rightarrow> stripe_event \<Rightarrow> db \<Rightarrow> error option \<times> db" where
  "processStripeEvent sessions_retrieve event d =
     (case ev_data event of
        Checkout_session_completed session \<Rightarrow>
          (case cs_cart_id session of
             None \<Rightarrow> (None, d)
           | Some cartId \<Rightarrow>
               (case sessions_retrieve (cs_id session) of
                  Inl e \<Rightarrow> (Some e, d)
                | Inr fullSession \<Rightarrow>
                    (let lineItems = (case fullSession of None \<Rightarrow> [] | Some l \<Rightarrow> l) in
                     case sql_insert_order (cs_user_id session) session d of
                       (Inl e, d1) \<Rightarrow> (Some e, d1)
                     | (Inr order_id, d1) \<Rightarrow>
                         (case settle_line_items order_id lineItems d1 of
                            (Some e, d2) \<Rightarrow> (Some e, d2)
                          | (None, d2) \<Rightarrow>
                              (case (if cs_user_id session \<noteq> None \<and> truthy (cs_customer session)
                                     then sql_link_customer (the (cs_user_id session))
                                            (the (cs_customer session)) d2
                                     else (None, d2)) of
                                 (Some e, d3) \<Rightarrow> (Some e, d3)
                               | (None, d3) \<Rightarrow>
                                   (None,
                                    d3\<lparr>cart_items :=
                                         filter (\<lambda>r. ci_cart_id r \<noteq> cartId) (cart_items d3)\<rparr>))))))
      | Payment_intent_payment_failed pi \<Rightarrow>
          (None,
           d\<lparr>orders := map (\<lambda>r. if o_stripe_payment_intent_id r = Some pi
                                  then r\<lparr>o_status := Pending\<rparr> else r) (orders d)\<rparr>)
      | Charge_refunded payment_intent \<Rightarrow>
          (None,
           d\<lparr>orders := map (\<lambda>r. if payment_intent \<noteq> None \<and>
                                     o_stripe_payment_intent_id r = payment_intent
                                  then r\<lparr>o_status := Refunded\<rparr> else r) (orders d)\<rparr>)
      | Other_event _ \<Rightarrow> (None, d))"

subsection \<open>The intake handler\<close>

text \<open>\<open>INSERT INTO stripe_webhook_events (id, type, payload)\<close>; \<open>id\<close> is the primary
  key.\<close>

definition sql_insert_event :: "stripe_event \<Rightarrow> db \<Rightarrow> error option \<times> db" where
  "sql_insert_event event d =
     (if find (\<lambda>r. we_id r = ev_id event) (stripe_webhook_events d) \<noteq> None
      then (Some (DbError (Unique_violation ''stripe_webhook_events_pkey'')), d)
      else
        (None,
         d\<lparr>stripe_webhook_events := stripe_webhook_events d @
              [\<lparr>we_id = ev_id event, we_type = event_type (ev_data event),
                we_payload = event, we_error = None\<rparr>]\<rparr>))"

text \<open>\<open>INSERT INTO stripe_webhook_events (id, type, payload, error) ... ON CONFLICT (id)
  DO UPDATE SET error = ...\<close>.\<close>

definition sql_upsert_event_error :: "stripe_event \<Rightarrow> message_text \<Rightarrow> db \<Rightarrow> db" where
  "sql_upsert_event_error event msg d =
     (if find (\<lambda>r. we_id r = ev_id event) (stripe_webhook_events d) \<noteq> None
      then d\<lparr>stripe_webhook_events :=
               map (\<lambda>r. if we_id r = ev_id event then r\<lparr>we_error := Some msg\<rparr> else r)
                 (stripe_webhook_events d)\<rparr>
      else d\<lparr>stripe_webhook_events := stripe_webhook_events d @
               [\<lparr>we_id = ev_id event, we_type = event_type (ev_data event),
                 we_payload = event, we_error = Some msg\<rparr>]\<rparr>)"

text \<open>The two JSON answers of the handler: \<open>{received: true}\<close> and
  \<open>{received: true, duplicate: true}\<close>.\<close>

datatype webhook_response = Received | Received_duplicate

text \<open>\<open>constructEvent\<close> is \<open>stripe.webhooks.constructEventAsync\<close> with the webhook
  secret: given the raw body and the \<open>stripe-signature\<close> header it raises (\<open>Inl\<close> the
  message) or returns the verified event.\<close>

definition webhooks_post_stripe ::
  "(string \<Rightarrow> string option \<Rightarrow> string + stripe_event) \<Rightarrow>
   (string \<Rightarrow> error + line_item list option) \<Rightarrow> string \<Rightarrow> string option \<Rightarrow> db
     \<Rightarrow> (error + webhook_response) \<times> db" where
  "webhooks_post_stripe constructEvent sessions_retrieve body sig d =
     (case constructEvent body sig of
        Inl msg \<Rightarrow> (Inl (HTTPException 400 (''Webhook error: '' @ msg)), d)
      | Inr event \<Rightarrow>
          if filter (\<lambda>r. we_id r = ev_id event) (stripe_webhook_events d) \<noteq> []
          then (Inr Received_duplicate, d)
          else
            (case processStripeEvent sessions_retrieve event d of
               (Some err, d1) \<Rightarrow>
                 (Inl (HTTPException 500 ''Webhook processing failed''),
                  sql_upsert_event_error event (message err) d1)
             | (None, d1) \<Rightarrow>
                 (case sql_insert_event event d1 of
                    (Some err, d2) \<Rightarrow>
                      (Inl (HTTPException 500 ''Webhook processing failed''),
                       sql_upsert_event_error event (message err) d2)
                  | (None, d2) \<Rightarrow> (Inr Received, d2))))"

text \<open>A delivery is a raw body with its signature header. \<open>carries\<close> says that a
  delivery verifies and that its event has the given identifier. \<open>deliver\<close> hands a run
  of deliveries to the intake one after the other: the answers in order, and the
  database after the last.\<close>

definition carries ::
  "(string \<Rightarrow> string option \<Rightarrow> string + stripe_event) \<Rightarrow> string \<Rightarrow> string \<times> string option \<Rightarrow> bool" where
  "carries constructEvent event_id delivery =
     (case constructEvent (fst delivery) (snd delivery) of
        Inl _ \<Rightarrow> False
      | Inr event \<Rightarrow> ev_id event = event_id)"

fun deliver ::
  "(string \<Rightarrow> string option \<Rightarrow> string + stripe_event) \<Rightarrow>
   (string \<Rightarrow> error + line_item list option) \<Rightarrow> (string \<times> string option) list \<Rightarrow> db
     \<Rightarrow> (error + webhook_response) list \<times> db" where
  "deliver constructEvent sessions_retrieve [] d = ([], d)"
| "deliver constructEvent sessions_retrieve ((body, sig) # rest) d =
     (case webhooks_post_stripe constructEvent sessions_retrieve body sig d of
        (r, d1) \<Rightarrow>
          (case deliver constructEvent sessions_retrieve rest d1 of
             (rs, d2) \<Rightarrow> (r # rs, d2)))"

section \<open>PATCH /admin/variants/:id/stock\<close>

text \<open>The body gives \<open>stock_qty\<close> (absolute) or \<open>adjustment\<close> (relative), each counted
  only when it is a number; either is an \<open>INT\<close> parameter of its statement, and the
  relative statement works out \<open>stock_qty + adjustment\<close> in \<open>INT\<close> before
  \<open>GREATEST(0, ...)\<close>. \<open>stock_qty\<close> carries \<open>CHECK (stock_qty >= 0)\<close>. The handler runs
  behind the admin middleware.\<close>

record stock_body =
  sb_stock_qty :: "int option"
  sb_adjustment :: "int option"

definition admin_patch_variant_stock :: "uuid \<Rightarrow> stock_body \<Rightarrow> db \<Rightarrow> (error + variant_row) \<times> db" where
  "admin_patch_variant_stock vid body d =
     (case sb_stock_qty body of
        Some stock_qty \<Rightarrow>
          (if \<not> int4 stock_qty then (Inl (DbError Numeric_value_out_of_range), d)
           else if stock_qty < 0 \<and> find (\<lambda>v. v_id v = vid) (variants d) \<noteq> None
           then (Inl (DbError (Check_violation ''variants_stock_qty_check'')), d)
           else
             (let d1 = d\<lparr>variants :=
                          map (\<lambda>v. if v_id v = vid then v\<lparr>v_stock_qty := stock_qty\<rparr> else v)
                            (variants d)\<rparr>
              in case find (\<lambda>v. v_id v = vid) (variants d1) of
                   None \<Rightarrow> (Inl (HTTPException 404 ''Variant not found''), d1)
                 | Some updated \<Rightarrow> (Inr updated, d1)))
      | None \<Rightarrow>
          (case sb_adjustment body of
             Some adjustment \<Rightarrow>
               (if \<not> int4 adjustment \<or>
                   find (\<lambda>v. v_id v = vid \<and> \<not> int4 (v_stock_qty v + adjustment)) (variants d) \<noteq> None
                then (Inl (DbError Numeric_value_out_of_range), d)
                else
                  (let d1 = d\<lparr>variants :=
                               map (\<lambda>v. if v_id v = vid
                                         then v\<lparr>v_stock_qty := max 0 (v_stock_qty v + adjustment)\<rparr>
                                         else v)
                                 (variants d)\<rparr>
                   in case find (\<lambda>v. v_id v = vid) (variants d1) of
                        None \<Rightarrow> (Inl (HTTPException 404 ''Variant not found''), d1)
                      | Some updated \<Rightarrow> (Inr updated, d1)))
           | None \<Rightarrow>
               (Inl (HTTPException 400
                  ''Provide stock_qty (absolute) or adjustment (relative)''), d)))"

section \<open>States and requests used as concrete inputs\<close>

text \<open>A store with two products, one variant of the second (four in stock), one user
  and one anonymous cart that holds two lines: product 10 twice, and three of
  variant 30.\<close>

definition ex_db :: db where
  "ex_db =
     \<lparr>users = [\<lparr>u_id = 1, u_stripe_customer_id = None\<rparr>],
      products =
        [\<lparr>p_id = 10, p_name = ''Product A'', p_slug = ''product-a'', p_image = None,
          p_price_cents = 1000, p_is_active = True\<rparr>,
         \<lparr>p_id = 11, p_name = ''Product B'', p_slug = ''product-b'', p_image = None,
          p_price_cents = 2000, p_is_active = True\<rparr>],
      variants = [\<lparr>v_id = 30, v_name = ''Large'', v_price_cents = Some 2500, v_stock_qty = 4\<rparr>],
      carts = [\<lparr>c_id = 7, c_user_id = None, c_session_token = Some ''tok'',
                c_stripe_session_id = None\<rparr>],
      cart_items =
        [\<lparr>ci_id = 20, ci_cart_id = 7, ci_product_id = 10, ci_variant_id = None,
          ci_quantity = 2, ci_price_cents = 1000\<rparr>,
         \<lparr>ci_id = 21, ci_cart_id = 7, ci_product_id = 11, ci_variant_id = Some 30,
          ci_quantity = 3, ci_price_cents = 2500\<rparr>],
      orders = [], order_items = [], stripe_webhook_events = [], next_uuid = 100\<rparr>"

definition ex_ctx :: request_ctx where
  "ex_ctx = \<lparr>rq_userId = None, rq_cart_token = Some ''tok'', rq_randomUUID = ''fresh''\<rparr>"

definition ex_cart :: cart_row where
  "ex_cart = \<lparr>c_id = 7, c_user_id = None, c_session_token = Some ''tok'',
              c_stripe_session_id = None\<rparr>"

text \<open>A paid checkout of that cart (session \<open>cs_1\<close>, event \<open>evt_1\<close>); a second session
  \<open>cs_2\<close> whose second line item carries no product identifier (event \<open>evt_2\<close>); and a
  refund of a payment intent that no order carries (event \<open>evt_3\<close>); a refund of the
  paid checkout (event \<open>evt_4\<close>) and a state in which that checkout has its order; and
  a completed session \<open>cs_5\<close> whose metadata names no cart (event \<open>evt_5\<close>).\<close>

definition ex_session :: checkout_session where
  "ex_session =
     \<lparr>cs_id = ''cs_1'', cs_cart_id = Some 7, cs_user_id = None,
      cs_payment_intent = Some ''pi_1'', cs_amount_subtotal = Some 9500,
      cs_amount_total = Some 9500, cs_currency = Some ''usd'',
      cs_customer_email = Some ''shopper@example.com'', cs_customer_name = None,
      cs_shipping_address = None, cs_customer = Some ''cus_1''\<rparr>"

definition ex_line_items :: "line_item list" where
  "ex_line_items =
     [\<lparr>li_description = Some ''Product A'', li_quantity = Some 2, li_unit_amount = Some 1000,
       li_product_id = Some 10, li_variant_id = None\<rparr>,
      \<lparr>li_description = Some ''Product B'', li_quantity = Some 3, li_unit_amount = Some 2500,
       li_product_id = Some 11, li_variant_id = Some 30\<rparr>]"

definition ex_broken_line_items :: "line_item list" where
  "ex_broken_line_items =
     [\<lparr>li_description = Some ''Product B'', li_quantity = Some 3, li_unit_amount = Some 2500,
       li_product_id = Some 11, li_variant_id = Some 30\<rparr>,
      \<lparr>li_description = Some ''Gift card'', li_quantity = Some 1, li_unit_amount = Some 500,
       li_product_id = None, li_variant_id = None\<rparr>]"

definition ex_event :: stripe_event where
  "ex_event = \<lparr>ev_id = ''evt_1'', ev_data = Checkout_session_completed ex_session\<rparr>"

definition ex_broken_event :: stripe_event where
  "ex_broken_event =
     \<lparr>ev_id = ''evt_2'',
      ev_data = Checkout_session_completed
        (ex_session\<lparr>cs_id := ''cs_2'', cs_payment_intent := Some ''pi_2''\<rparr>)\<rparr>"

definition ex_uncorrelated_event :: stripe_event where
  "ex_uncorrelated_event =
     \<lparr>ev_id = ''evt_5'',
      ev_data = Checkout_session_completed
        (ex_session\<lparr>cs_id := ''cs_5'', cs_cart_id := None, cs_payment_intent := Some ''pi_5''\<rparr>)\<rparr>"

definition ex_refund_event :: stripe_event where
  "ex_refund_event = \<lparr>ev_id = ''evt_3'', ev_data = Charge_refunded (Some ''pi_9'')\<rparr>"

definition ex_refund_paid_event :: stripe_event where
  "ex_refund_paid_event = \<lparr>ev_id = ''evt_4'', ev_data = Charge_refunded (Some ''pi_1'')\<rparr>"

definition ex_db_paid :: db where
  "ex_db_paid = ex_db\<lparr>orders := [order_values 90 None ex_session], cart_items := []\<rparr>"

definition ex_constructEvent :: "string \<Rightarrow> string option \<Rightarrow> string + stripe_event" where
  "ex_constructEvent body sig =
     (if sig \<noteq> Some ''valid'' then Inl ''No signatures found matching the expected signature''
      else if body = ''paid'' then Inr ex_event
      else if body = ''broken'' then Inr ex_broken_event
      else if body = ''refund-paid'' then Inr ex_refund_paid_event
      else if body = ''uncorrelated'' then Inr ex_uncorrelated_event
      else Inr ex_refund_event)"

definition ex_retrieve :: "string \<Rightarrow> error + line_item list option" where
  "ex_retrieve session_id =
     (if session_id = ''cs_1'' then Inr (Some ex_line_items)
      else if session_id = ''cs_2'' then Inr (Some ex_broken_line_items)
      else Inl (StripeError ''No such checkout.session''))"

section \<open>What a completed settlement leaves behind\<close>

text \<open>The stock of a variant row once every line item that names the variant has taken
  its quantity off exactly once, in order, never going below zero.\<close>

definition settled_stock :: "line_item list \<Rightarrow> variant_row \<Rightarrow> int" where
  "settled_stock lineItems v =
     foldl (\<lambda>stock q. max 0 (stock - q)) (v_stock_qty v)
       (map li_qty (filter (\<lambda>li. li_variant_id li = Some (v_id v)) lineItems))"

section \<open>Sequences of stock changes\<close>

text \<open>The requests that lower a stock counter: a delivery to the webhook intake (its
  body and signature header) and an admin stock patch. \<open>apply_stock_op\<close> is the state
  the handler leaves, whatever it answers. \<open>stock_floor\<close> is what the schema says of
  \<open>stock_qty\<close> on every variant row: an \<open>INT\<close> with \<open>CHECK (stock_qty >= 0)\<close>.\<close>

datatype stock_op =
  Settlement string "string option"
  | Admin_patch uuid stock_body

fun apply_stock_op ::
  "(string \<Rightarrow> string option \<Rightarrow> string + stripe_event) \<Rightarrow>
   (string \<Rightarrow> error + line_item list option) \<Rightarrow> stock_op \<Rightarrow> db \<Rightarrow> db" where
  "apply_stock_op constructEvent sessions_retrieve (Settlement body sig) d =
     snd (webhooks_post_stripe constructEvent sessions_retrieve body sig d)"
| "apply_stock_op constructEvent sessions_retrieve (Admin_patch vid body) d =
     snd (admin_patch_variant_stock vid body d)"

definition stock_floor :: "db \<Rightarrow> bool" where
  "stock_floor d = list_all (\<lambda>v. 0 \<le> v_stock_qty v \<and> int4 (v_stock_qty v)) (variants d)"

text \<open>A paid checkout for three of variant 30, a second one that raises after its
  first line item (three more), and an admin adjustment of minus five.\<close>

definition ex_stock_ops :: "stock_op list" where
  "ex_stock_ops =
     [Settlement ''paid'' (Some ''valid''),
      Settlement ''broken'' (Some ''valid''),
      Admin_patch 30 \<lparr>sb_stock_qty = None, sb_adjustment = Some (- 5)\<rparr>]"

text \<open>A Stripe client that always opens session \<open>cs_1\<close>; the example store with an
  earlier session \<open>cs_0\<close> recorded on the cart; and the example store with the cart
  emptied.\<close>

definition ex_sessions_create :: "session_params \<Rightarrow> error + stripe_session" where
  "ex_sessions_create params =
     Inr \<lparr>ss_id = ''cs_1'', ss_url = Some ''https://checkout.stripe.com/c/pay/cs_1''\<rparr>"

definition ex_db_session :: db where
  "ex_db_session =
     ex_db\<lparr>carts := [\<lparr>c_id = 7, c_user_id = None, c_session_token = Some ''tok'',
                        c_stripe_session_id = Some ''cs_0''\<rparr>]\<rparr>"

definition ex_db_empty_cart :: db where
  "ex_db_empty_cart = ex_db\<lparr>cart_items := []\<rparr>"

text \<open>Requests to \<open>POST /cart/items\<close> in the example store: two more of variant 30
  (three are in the cart, four in stock); five of variant 30; and product 10 with no
  variant, once with the default quantity and once with quantity 2.\<close>

definition ex_add_variant :: add_item_body where
  "ex_add_variant = \<lparr>b_product_id = Some 11, b_variant_id = Some 30, b_quantity = Some 2\<rparr>"

definition ex_add_too_many :: add_item_body where
  "ex_add_too_many = \<lparr>b_product_id = Some 11, b_variant_id = Some 30, b_quantity = Some 5\<rparr>"

definition ex_add_plain :: add_item_body where
  "ex_add_plain = \<lparr>b_product_id = Some 10, b_variant_id = None, b_quantity = None\<rparr>"

definition ex_add_plain_two :: add_item_body where
  "ex_add_plain_two = \<lparr>b_product_id = Some 10, b_variant_id = None, b_quantity = Some 2\<rparr>"

text \<open>A run of calls to \<open>POST /cart/items\<close> by one client. Before each call the
  catalogue may have been edited: its products and variants tables are replaced by the
  ones given with the call. The result is the final database, or \<open>None\<close> when a call
  raises.\<close>

fun add_items ::
  "request_ctx \<Rightarrow> ((product_row list \<times> variant_row list) \<times> add_item_body) list \<Rightarrow> db \<Rightarrow> db option" where
  "add_items c [] d = Some d"
| "add_items c (((catalog_products, catalog_variants), body) # rest) d =
     (case cart_post_items c body (d\<lparr>products := catalog_products, variants := catalog_variants\<rparr>) of
        (Inl e, d1) \<Rightarrow> None
      | (Inr r, d1) \<Rightarrow> add_items c rest d1)"


lemma filter_empty_find: "(filter P xs = []) = (find P xs = None)"
  by (induction xs) auto

lemma find_append_last:
  "find P (xs @ [x]) = (case find P xs of Some y \<Rightarrow> Some y | None \<Rightarrow> if P x then Some x else None)"
  by (induction xs) auto

section \<open>Properties of the cart routes\<close>

lemma resolveCart_read_only: "snd (resolveCart c False d) = d"
  by (simp add: resolveCart_def split: option.splits list.splits)

lemma resolveCart_carts_only:
  "carts d' = carts d \<Longrightarrow> fst (resolveCart c False d') = fst (resolveCart c False d)"
  by (simp add: resolveCart_def split: option.splits list.splits)

lemma resolveCart_found:
  assumes "fst (resolveCart c False d) = Inr (Some cartRow)" and "carts d' = carts d"
  shows "resolveCart c False d' = (Inr (Some cartRow), d')"
  using assms resolveCart_carts_only[OF assms(2), of c] resolveCart_read_only[of c d']
  by (metis prod.collapse)

lemma resolveCart_existing:
  "fst (resolveCart c False d) = Inr (Some cartRow) \<Longrightarrow>
     resolveCart c True d = (Inr (Some cartRow), d)"
  by (auto simp: resolveCart_def split: option.splits list.splits if_splits)

lemma resolveCart_error: "resolveCart c create d = (Inl e, d1) \<Longrightarrow> \<exists>m. e = DbError m"
  by (auto simp: resolveCart_def insert_cart_row_def sql_insert_cart_def Let_def
      split: option.splits list.splits if_splits)

lemma snapshot_items_of_cart:
  "i \<in> set (sn_items (getCartWithItems cartId d)) \<Longrightarrow>
     si_item i \<in> set (cart_items d) \<and> ci_cart_id (si_item i) = cartId"
  by (auto simp: getCartWithItems_def Let_def join_item_def List.map_filter_def
      split: option.splits)

lemma ex_ctx_resolves: "fst (resolveCart ex_ctx False ex_db) = Inr (Some ex_cart)"
  by (simp add: resolveCart_def ex_ctx_def ex_db_def ex_cart_def)

lemmas cart_eval =
  int4_def cart_post_items_def requested_quantity_def check_variant_def resolveCart_def
  insert_cart_row_def sql_insert_cart_def sql_upsert_cart_item_def conflicts_def
  getCartWithItems_def join_item_def variant_name_of_def List.map_filter_def truthy_def Let_def
  ex_db_def ex_ctx_def ex_cart_def ex_db_empty_cart_def
  ex_add_variant_def ex_add_too_many_def ex_add_plain_def ex_add_plain_two_def

subsection \<open>Removing an item\<close>

text \<open>
  C8. For a request whose cart resolves, \<open>DELETE /cart/items/:itemId\<close> succeeds and
  returns a snapshot without that item; calling it again on the resulting state gives
  the same snapshot and the same state; and when the cart holds no item with that
  identifier the call succeeds and changes nothing.
\<close>

theorem removeItem_idempotent:
  assumes "fst (resolveCart c False d) = Inr (Some cartRow)"
  shows "(\<exists>snapshot. fst (cart_delete_item c itemId d) = Inr snapshot \<and>
            (\<forall>i \<in> set (sn_items snapshot). ci_id (si_item i) \<noteq> itemId)) \<and>
         cart_delete_item c itemId (snd (cart_delete_item c itemId d)) =
           cart_delete_item c itemId d \<and>
         (find (\<lambda>r. ci_id r = itemId \<and> ci_cart_id r = c_id cartRow) (cart_items d) = None \<longrightarrow>
            cart_delete_item c itemId d = (Inr (getCartWithItems (c_id cartRow) d), d))"
proof -
  define keep where
    "keep = (\<lambda>r::cart_item_row. \<not> (ci_id r = itemId \<and> ci_cart_id r = c_id cartRow))"
  define d1 where "d1 = d\<lparr>cart_items := filter keep (cart_items d)\<rparr>"
  have carts1: "carts d1 = carts d" and items1: "cart_items d1 = filter keep (cart_items d)"
    by (simp_all add: d1_def)
  have r0: "resolveCart c False d = (Inr (Some cartRow), d)"
    using resolveCart_found[OF assms, of d] by simp
  have r1: "resolveCart c False d1 = (Inr (Some cartRow), d1)"
    using resolveCart_found[OF assms carts1] .
  have again: "d1\<lparr>cart_items := filter keep (cart_items d1)\<rparr> = d1"
    by (simp add: d1_def)
  have first: "cart_delete_item c itemId d = (Inr (getCartWithItems (c_id cartRow) d1), d1)"
    unfolding cart_delete_item_def r0 by (simp add: Let_def d1_def keep_def)
  have second: "cart_delete_item c itemId d1 = (Inr (getCartWithItems (c_id cartRow) d1), d1)"
    unfolding cart_delete_item_def r1 using again by (simp add: Let_def keep_def)
  have gone: "\<forall>i \<in> set (sn_items (getCartWithItems (c_id cartRow) d1)). ci_id (si_item i) \<noteq> itemId"
    using snapshot_items_of_cart[of _ "c_id cartRow" d1] by (auto simp: items1 keep_def)
  have noop: "find (\<lambda>r. ci_id r = itemId \<and> ci_cart_id r = c_id cartRow) (cart_items d) = None
                \<longrightarrow> d1 = d"
  proof
    assume "find (\<lambda>r. ci_id r = itemId \<and> ci_cart_id r = c_id cartRow) (cart_items d) = None"
    then have "filter keep (cart_items d) = cart_items d"
      by (simp add: find_None_iff filter_id_conv keep_def)
    then show "d1 = d" by (simp add: d1_def)
  qed
  show ?thesis using first second gone noop by auto
qed

text \<open>Removing line 21 of the example cart twice: both calls succeed with the same
  one-line snapshot; removing the unknown identifier 99 returns the full cart and
  leaves the state as it was.\<close>

theorem removeItem_idempotent_witness:
  "fst (resolveCart ex_ctx False ex_db) = Inr (Some ex_cart) \<and>
   map (\<lambda>i. ci_id (si_item i)) (sn_items (projr (fst (cart_delete_item ex_ctx 21 ex_db)))) = [20] \<and>
   cart_delete_item ex_ctx 21 (snd (cart_delete_item ex_ctx 21 ex_db)) =
     cart_delete_item ex_ctx 21 ex_db \<and>
   find (\<lambda>r. ci_id r = 99 \<and> ci_cart_id r = c_id ex_cart) (cart_items ex_db) = None \<and>
   cart_delete_item ex_ctx 99 ex_db = (Inr (getCartWithItems (c_id ex_cart) ex_db), ex_db)"
proof -
  have absent: "find (\<lambda>r. ci_id r = 99 \<and> ci_cart_id r = c_id ex_cart) (cart_items ex_db) = None"
    by (simp add: ex_db_def ex_cart_def)
  have first: "map (\<lambda>i. ci_id (si_item i))
      (sn_items (projr (fst (cart_delete_item ex_ctx 21 ex_db)))) = [20]"
    by (simp add: cart_delete_item_def resolveCart_def ex_ctx_def ex_db_def getCartWithItems_def
        join_item_def List.map_filter_def variant_name_of_def Let_def)
  show ?thesis
    using removeItem_idempotent[OF ex_ctx_resolves, of 21]
      removeItem_idempotent[OF ex_ctx_resolves, of 99] absent first ex_ctx_resolves
    by simp
qed

subsection \<open>The stock check of an add\<close>

lemma upsert_error:
  "sql_upsert_cart_item cartId pid vid q price d = (Inl e, d1) \<Longrightarrow> \<exists>m. e = DbError m"
  by (auto simp: sql_upsert_cart_item_def Let_def split: option.splits if_splits)

lemma upsert_rejects:
  "q < 1 \<Longrightarrow> sql_upsert_cart_item cartId pid vid q price d =
     (Inl (DbError (if \<not> int4 q \<or> \<not> int4 price then Numeric_value_out_of_range
                    else Check_violation ''cart_items_quantity_check'')), d)"
  by (simp add: sql_upsert_cart_item_def)

lemma addItem_success_quantity:
  assumes "fst (cart_post_items c body d) = Inr r"
  shows "1 \<le> requested_quantity body"
proof (rule ccontr)
  assume "\<not> 1 \<le> requested_quantity body"
  then have "requested_quantity body < 1" by simp
  with assms show False
    by (auto simp: cart_post_items_def Let_def upsert_rejects
        split: option.splits sum.splits prod.splits if_splits)
qed

lemma addItem_after_check:
  assumes "b_product_id body = Some pid"
    and "find (\<lambda>p. p_id p = pid \<and> p_is_active p) (products d) = Some product"
    and "check_variant (b_variant_id body) (requested_quantity body) (p_price_cents product) d = Inr price"
  shows "fst (cart_post_items c body d) \<noteq> Inl (HTTPException 400 ''Insufficient stock'')"
proof -
  obtain r d1 where res: "resolveCart c True d = (r, d1)" by (cases "resolveCart c True d")
  show ?thesis
  proof (cases r)
    case (Inl e)
    with res resolveCart_error[of c True d e d1] assms show ?thesis
      by (auto simp: cart_post_items_def Let_def)
  next
    case (Inr found)
    show ?thesis
    proof (cases found)
      case None
      with res Inr assms show ?thesis by (simp add: cart_post_items_def Let_def)
    next
      case (Some cartRow)
      obtain r2 d2 where up: "sql_upsert_cart_item (c_id cartRow) pid (b_variant_id body)
          (requested_quantity body) price d1 = (r2, d2)"
        by (cases "sql_upsert_cart_item (c_id cartRow) pid (b_variant_id body)
          (requested_quantity body) price d1")
      show ?thesis
      proof (cases r2)
        case (Inl e)
        with up upsert_error[of "c_id cartRow" pid "b_variant_id body" "requested_quantity body" price d1 e d2]
          res Inr Some assms show ?thesis
          by (cases "b_variant_id body") (auto simp: cart_post_items_def Let_def)
      next
        case (Inr item)
        with up res \<open>r = Inr found\<close> Some assms show ?thesis
          by (cases "b_variant_id body") (auto simp: cart_post_items_def Let_def)
      qed
    qed
  qed
qed

text \<open>
  C3 (amended). \<open>POST /cart/items\<close> succeeds only with a quantity of at least 1 (a
  smaller one is refused by the check constraint on \<open>cart_items.quantity\<close>). With no
  variant it never answers \<open>Insufficient stock\<close>. With a variant, for a product and a
  variant that exist, it answers \<open>400 Insufficient stock\<close> exactly when the variant's
  stock is less than the quantity of this request alone; what the cart already holds of
  that line is not counted. On that answer the database is unchanged.
\<close>

theorem addItem_stock_check:
  "(\<forall>r. fst (cart_post_items c body d) = Inr r \<longrightarrow> 1 \<le> requested_quantity body) \<and>
   (b_variant_id body = None \<longrightarrow>
      fst (cart_post_items c body d) \<noteq> Inl (HTTPException 400 ''Insufficient stock'')) \<and>
   (\<forall>pid product vid variant.
      b_product_id body = Some pid \<and>
      find (\<lambda>p. p_id p = pid \<and> p_is_active p) (products d) = Some product \<and>
      b_variant_id body = Some vid \<and>
      find (\<lambda>v. v_id v = vid) (variants d) = Some variant \<longrightarrow>
        (fst (cart_post_items c body d) = Inl (HTTPException 400 ''Insufficient stock'')) =
          (v_stock_qty variant < requested_quantity body) \<and>
        (v_stock_qty variant < requested_quantity body \<longrightarrow> snd (cart_post_items c body d) = d))"
proof (intro conjI allI impI)
  fix r assume "fst (cart_post_items c body d) = Inr r"
  then show "1 \<le> requested_quantity body" by (rule addItem_success_quantity)
next
  assume nov: "b_variant_id body = None"
  show "fst (cart_post_items c body d) \<noteq> Inl (HTTPException 400 ''Insufficient stock'')"
  proof (cases "b_product_id body")
    case None
    then show ?thesis by (simp add: cart_post_items_def Let_def)
  next
    case (Some pid)
    show ?thesis
    proof (cases "find (\<lambda>p. p_id p = pid \<and> p_is_active p) (products d)")
      case None
      with Some show ?thesis by (simp add: cart_post_items_def Let_def)
    next
      case (Some product)
      from nov have "check_variant (b_variant_id body) (requested_quantity body)
          (p_price_cents product) d = Inr (p_price_cents product)"
        by (simp add: check_variant_def)
      from addItem_after_check[OF \<open>b_product_id body = Some pid\<close> Some this] show ?thesis .
    qed
  qed
next
  fix pid product vid variant
  assume h: "b_product_id body = Some pid \<and>
      find (\<lambda>p. p_id p = pid \<and> p_is_active p) (products d) = Some product \<and>
      b_variant_id body = Some vid \<and>
      find (\<lambda>v. v_id v = vid) (variants d) = Some variant"
  show "(fst (cart_post_items c body d) = Inl (HTTPException 400 ''Insufficient stock'')) =
          (v_stock_qty variant < requested_quantity body)"
  proof (cases "v_stock_qty variant < requested_quantity body")
    case True
    with h show ?thesis by (simp add: cart_post_items_def check_variant_def Let_def)
  next
    case False
    with h have "\<exists>price. check_variant (b_variant_id body) (requested_quantity body)
          (p_price_cents product) d = Inr price"
      by (cases "v_price_cents variant") (auto simp: check_variant_def)
    then obtain price where "check_variant (b_variant_id body) (requested_quantity body)
          (p_price_cents product) d = Inr price"
      by blast
    from addItem_after_check[OF _ _ this, of pid c] h False show ?thesis by simp
  qed
  assume "v_stock_qty variant < requested_quantity body"
  with h show "snd (cart_post_items c body d) = d"
    by (simp add: cart_post_items_def check_variant_def Let_def)
qed

text \<open>Five of variant 30 against a stock of four is refused and changes nothing; two
  is not refused.\<close>

theorem addItem_stock_check_witness:
  "b_product_id ex_add_too_many = Some 11 \<and>
   map_option p_name (find (\<lambda>p. p_id p = 11 \<and> p_is_active p) (products ex_db)) = Some ''Product B'' \<and>
   b_variant_id ex_add_too_many = Some 30 \<and>
   map_option v_stock_qty (find (\<lambda>v. v_id v = 30) (variants ex_db)) = Some 4 \<and>
   requested_quantity ex_add_too_many = 5 \<and>
   cart_post_items ex_ctx ex_add_too_many ex_db =
     (Inl (HTTPException 400 ''Insufficient stock''), ex_db) \<and>
   requested_quantity ex_add_variant = 2 \<and>
   fst (cart_post_items ex_ctx ex_add_variant ex_db) \<noteq>
     Inl (HTTPException 400 ''Insufficient stock'')"
proof -
  obtain product where product: "find (\<lambda>p. p_id p = 11 \<and> p_is_active p) (products ex_db) = Some product"
    and pname: "p_name product = ''Product B''"
    by (simp add: ex_db_def)
  obtain variant where variant: "find (\<lambda>v. v_id v = 30) (variants ex_db) = Some variant"
    and stock: "v_stock_qty variant = 4"
    by (simp add: ex_db_def)
  have b1: "b_product_id ex_add_too_many = Some 11" "b_variant_id ex_add_too_many = Some 30"
    "requested_quantity ex_add_too_many = 5"
    by (simp_all add: ex_add_too_many_def requested_quantity_def)
  have b2: "b_product_id ex_add_variant = Some 11" "b_variant_id ex_add_variant = Some 30"
    "requested_quantity ex_add_variant = 2"
    by (simp_all add: ex_add_variant_def requested_quantity_def)
  note t1 = addItem_stock_check[of ex_ctx ex_add_too_many ex_db, THEN conjunct2, THEN conjunct2,
      rule_format, of 11 product 30 variant]
  note t2 = addItem_stock_check[of ex_ctx ex_add_variant ex_db, THEN conjunct2, THEN conjunct2,
      rule_format, of 11 product 30 variant]
  from t1 b1 product variant stock have
    "fst (cart_post_items ex_ctx ex_add_too_many ex_db) = Inl (HTTPException 400 ''Insufficient stock'')"
    "snd (cart_post_items ex_ctx ex_add_too_many ex_db) = ex_db"
    by simp_all
  then have refused: "cart_post_items ex_ctx ex_add_too_many ex_db =
     (Inl (HTTPException 400 ''Insufficient stock''), ex_db)"
    by (simp add: prod_eq_iff)
  from t2 b2 product variant stock have accepted:
    "fst (cart_post_items ex_ctx ex_add_variant ex_db) \<noteq> Inl (HTTPException 400 ''Insufficient stock'')"
    by simp
  show ?thesis using b1 b2 product pname variant stock refused accepted by simp
qed

text \<open>The cart holds three of variant 30 and four are in stock. Adding two more is
  accepted, and the line then holds five.\<close>

theorem addItem_cumulative_stock_counterexample:
  "map v_stock_qty (filter (\<lambda>v. v_id v = 30) (variants ex_db)) = [4] \<and>
   map ci_quantity
     (filter (\<lambda>r. ci_cart_id r = 7 \<and> ci_product_id r = 11 \<and> ci_variant_id r = Some 30)
        (cart_items ex_db)) = [3] \<and>
   ex_add_variant = \<lparr>b_product_id = Some 11, b_variant_id = Some 30, b_quantity = Some 2\<rparr> \<and>
   map_sum id ar_item (fst (cart_post_items ex_ctx ex_add_variant ex_db)) =
     Inr \<lparr>ci_id = 21, ci_cart_id = 7, ci_product_id = 11, ci_variant_id = Some 30,
           ci_quantity = 5, ci_price_cents = 2500\<rparr> \<and>
   map ci_quantity
     (filter (\<lambda>r. ci_cart_id r = 7 \<and> ci_product_id r = 11 \<and> ci_variant_id r = Some 30)
        (cart_items (snd (cart_post_items ex_ctx ex_add_variant ex_db)))) = [5]"
  by (simp add: cart_eval)

subsection \<open>One line per product and variant\<close>

lemma no_conflict_without_variant: "find (conflicts cid pid None) xs = None"
  by (induction xs) (auto simp: conflicts_def)

text \<open>With no variant, every call that succeeds appends a row, whatever the cart
  already holds.\<close>

lemma addItem_without_variant_appends:
  assumes "b_variant_id body = None"
    and "cart_post_items c body d = (Inr r, d')"
  shows "\<exists>d1. snd (resolveCart c True d) = d1 \<and> cart_items d' = cart_items d1 @ [ar_item r]"
  using assms
  by (auto simp: cart_post_items_def Let_def sql_upsert_cart_item_def no_conflict_without_variant
      split: option.splits sum.splits prod.splits if_splits)

text \<open>
  C4, at an input where the code departs from it. Product 10 is added to the empty
  example cart twice with no variant, first one and then two. Both calls succeed, and
  the cart then holds two rows for (cart 7, product 10, no variant), with quantities 1
  and 2, where the claim has one row with quantity 3.
\<close>

theorem addItem_without_variant_duplicates:
  "cart_items ex_db_empty_cart = [] \<and>
   \<not> isl (fst (cart_post_items ex_ctx ex_add_plain ex_db_empty_cart)) \<and>
   \<not> isl (fst (cart_post_items ex_ctx ex_add_plain_two
              (snd (cart_post_items ex_ctx ex_add_plain ex_db_empty_cart)))) \<and>
   map (\<lambda>r. (ci_cart_id r, ci_product_id r, ci_variant_id r, ci_quantity r, ci_price_cents r))
     (cart_items (snd (cart_post_items ex_ctx ex_add_plain_two
        (snd (cart_post_items ex_ctx ex_add_plain ex_db_empty_cart))))) =
     [(7, 10, None, 1, 1000), (7, 10, None, 2, 1000)]"
  by (simp add: cart_eval)

lemma upsert_line:
  assumes "sql_upsert_cart_item cid pid (Some vid) q price d = (Inr item, d')"
  shows "carts d' = carts d \<and>
     filter (conflicts cid pid (Some vid)) (cart_items d') =
       (if filter (conflicts cid pid (Some vid)) (cart_items d) = []
        then [\<lparr>ci_id = next_uuid d, ci_cart_id = cid, ci_product_id = pid,
               ci_variant_id = Some vid, ci_quantity = q, ci_price_cents = price\<rparr>]
        else map (\<lambda>x. x\<lparr>ci_quantity := ci_quantity x + q\<rparr>)
               (filter (conflicts cid pid (Some vid)) (cart_items d)))"
proof (cases "find (conflicts cid pid (Some vid)) (cart_items d)")
  case None
  then have none: "filter (conflicts cid pid (Some vid)) (cart_items d) = []"
    by (simp add: filter_empty_find)
  from assms None none show ?thesis
    by (auto simp: sql_upsert_cart_item_def Let_def conflicts_def split: if_splits)
next
  case (Some old)
  then have some: "filter (conflicts cid pid (Some vid)) (cart_items d) \<noteq> []"
    by (simp add: filter_empty_find)
  have "filter (conflicts cid pid (Some vid))
          (map (\<lambda>x. if conflicts cid pid (Some vid) x then x\<lparr>ci_quantity := ci_quantity x + q\<rparr> else x) xs) =
        map (\<lambda>x. x\<lparr>ci_quantity := ci_quantity x + q\<rparr>) (filter (conflicts cid pid (Some vid)) xs)"
    for xs
    by (induction xs) (auto simp: conflicts_def)
  with assms Some some show ?thesis
    by (auto simp: sql_upsert_cart_item_def Let_def split: if_splits)
qed

lemma addItem_line:
  assumes resolve: "fst (resolveCart c False d) = Inr (Some cartRow)"
    and pid: "b_product_id body = Some pid" and vid: "b_variant_id body = Some vid"
    and run: "cart_post_items c body d = (Inr r, d')"
  shows "\<exists>product price.
     find (\<lambda>p. p_id p = pid \<and> p_is_active p) (products d) = Some product \<and>
     check_variant (Some vid) (requested_quantity body) (p_price_cents product) d = Inr price \<and>
     carts d' = carts d \<and>
     filter (conflicts (c_id cartRow) pid (Some vid)) (cart_items d') =
       (if filter (conflicts (c_id cartRow) pid (Some vid)) (cart_items d) = []
        then [\<lparr>ci_id = next_uuid d, ci_cart_id = c_id cartRow, ci_product_id = pid,
               ci_variant_id = Some vid, ci_quantity = requested_quantity body,
               ci_price_cents = price\<rparr>]
        else map (\<lambda>x. x\<lparr>ci_quantity := ci_quantity x + requested_quantity body\<rparr>)
               (filter (conflicts (c_id cartRow) pid (Some vid)) (cart_items d)))"
proof -
  note res = resolveCart_existing[OF resolve]
  from run pid obtain product where
    product: "find (\<lambda>p. p_id p = pid \<and> p_is_active p) (products d) = Some product"
    by (cases "find (\<lambda>p. p_id p = pid \<and> p_is_active p) (products d)")
      (auto simp: cart_post_items_def Let_def)
  from run pid vid product obtain price where
    price: "check_variant (Some vid) (requested_quantity body) (p_price_cents product) d = Inr price"
    by (cases "check_variant (Some vid) (requested_quantity body) (p_price_cents product) d")
      (auto simp: cart_post_items_def Let_def)
  from run pid vid product price res obtain item where
    up: "sql_upsert_cart_item (c_id cartRow) pid (Some vid) (requested_quantity body) price d = (Inr item, d')"
    by (cases "sql_upsert_cart_item (c_id cartRow) pid (Some vid) (requested_quantity body) price d")
      (auto simp: cart_post_items_def Let_def split: sum.splits)
  from upsert_line[OF up] product price show ?thesis by blast
qed

lemma add_items_line:
  assumes "fst (resolveCart c False d) = Inr (Some cartRow)"
    and "list_all (\<lambda>step. b_product_id (snd step) = Some pid \<and> b_variant_id (snd step) = Some vid) steps"
    and "filter (conflicts (c_id cartRow) pid (Some vid)) (cart_items d) = [row]"
    and "add_items c steps d = Some d'"
  shows "filter (conflicts (c_id cartRow) pid (Some vid)) (cart_items d') =
           [row\<lparr>ci_quantity := ci_quantity row + sum_list (map (\<lambda>step. requested_quantity (snd step)) steps)\<rparr>]"
  using assms
proof (induction steps arbitrary: d row)
  case Nil
  then show ?case by simp
next
  case (Cons step steps)
  obtain ps vs body where step: "step = ((ps, vs), body)" by (cases step) auto
  define dc where "dc = d\<lparr>products := ps, variants := vs\<rparr>"
  have carts_dc: "carts dc = carts d" and items_dc: "cart_items dc = cart_items d"
    by (simp_all add: dc_def)
  have res_dc: "fst (resolveCart c False dc) = Inr (Some cartRow)"
    using resolveCart_carts_only[OF carts_dc, of c] Cons.prems(1) by simp
  from Cons.prems(4) step obtain r d1 where
    run1: "cart_post_items c body dc = (Inr r, d1)" and rest: "add_items c steps d1 = Some d'"
    by (auto simp: dc_def split: sum.splits prod.splits)
  from Cons.prems(2) step have body: "b_product_id body = Some pid" "b_variant_id body = Some vid"
    and same: "list_all (\<lambda>step. b_product_id (snd step) = Some pid \<and> b_variant_id (snd step) = Some vid) steps"
    by simp_all
  from addItem_line[OF res_dc body run1] Cons.prems(3) items_dc carts_dc
  have carts1: "carts d1 = carts d"
    and line1: "filter (conflicts (c_id cartRow) pid (Some vid)) (cart_items d1) =
      [row\<lparr>ci_quantity := ci_quantity row + requested_quantity body\<rparr>]"
    by auto
  have res1: "fst (resolveCart c False d1) = Inr (Some cartRow)"
    using resolveCart_carts_only[OF carts1, of c] Cons.prems(1) by simp
  from Cons.IH[OF res1 same line1 rest] step show ?case by (simp add: add.assoc)
qed

text \<open>With a variant the upsert does what is wanted. On a cart that resolves and has no
  row for (cart, product, variant) yet, a run of successful adds of that product and
  variant ends with exactly one such row; its quantity is the sum of the quantities
  asked for and its price is the one the first call worked out from the catalogue of
  that moment, whatever the catalogue says later.\<close>

lemma addItem_with_variant_one_line:
  assumes resolve: "fst (resolveCart c False d) = Inr (Some cartRow)"
    and same: "list_all (\<lambda>step. b_product_id (snd step) = Some pid \<and> b_variant_id (snd step) = Some vid)
                 (((ps, vs), body) # steps)"
    and fresh: "filter (conflicts (c_id cartRow) pid (Some vid)) (cart_items d) = []"
    and run: "add_items c (((ps, vs), body) # steps) d = Some d'"
  shows "\<exists>row product.
      filter (conflicts (c_id cartRow) pid (Some vid)) (cart_items d') = [row] \<and>
      ci_quantity row =
        sum_list (map (\<lambda>step. requested_quantity (snd step)) (((ps, vs), body) # steps)) \<and>
      find (\<lambda>p. p_id p = pid \<and> p_is_active p) ps = Some product \<and>
      check_variant (Some vid) (requested_quantity body) (p_price_cents product)
        (d\<lparr>products := ps, variants := vs\<rparr>) = Inr (ci_price_cents row)"
proof -
  define dc where "dc = d\<lparr>products := ps, variants := vs\<rparr>"
  have carts_dc: "carts dc = carts d" and items_dc: "cart_items dc = cart_items d"
    and prods_dc: "products dc = ps"
    by (simp_all add: dc_def)
  have res_dc: "fst (resolveCart c False dc) = Inr (Some cartRow)"
    using resolveCart_carts_only[OF carts_dc, of c] resolve by simp
  from run obtain r d1 where
    run1: "cart_post_items c body dc = (Inr r, d1)" and rest: "add_items c steps d1 = Some d'"
    by (auto simp: dc_def split: sum.splits prod.splits)
  from same have body: "b_product_id body = Some pid" "b_variant_id body = Some vid"
    and same': "list_all (\<lambda>step. b_product_id (snd step) = Some pid \<and> b_variant_id (snd step) = Some vid) steps"
    by simp_all
  from addItem_line[OF res_dc body run1] fresh items_dc carts_dc prods_dc
  obtain product price where
    product: "find (\<lambda>p. p_id p = pid \<and> p_is_active p) ps = Some product" and
    price: "check_variant (Some vid) (requested_quantity body) (p_price_cents product) dc = Inr price" and
    carts1: "carts d1 = carts d" and
    line1: "filter (conflicts (c_id cartRow) pid (Some vid)) (cart_items d1) =
      [\<lparr>ci_id = next_uuid dc, ci_cart_id = c_id cartRow, ci_product_id = pid,
        ci_variant_id = Some vid, ci_quantity = requested_quantity body, ci_price_cents = price\<rparr>]"
    by auto
  have res1: "fst (resolveCart c False d1) = Inr (Some cartRow)"
    using resolveCart_carts_only[OF carts1, of c] resolve by simp
  from add_items_line[OF res1 same' line1 rest] product price show ?thesis
    by (simp add: dc_def)
qed

section \<open>Properties of the checkout route\<close>

text \<open>
  C9. \<open>POST /checkout/session\<close> leaves users, products, stock, cart items, orders,
  order items and the event ledger as they were, whatever it answers. When it raises,
  nothing at all has changed; on a resolved cart with zero items it raises
  \<open>400 Cart is empty\<close>. When it succeeds, the cart had items and the one change is that
  the cart's row now carries the identifier of the session Stripe returned, whatever it
  carried before.
\<close>

theorem createSession_frame:
  "users (snd (checkout_post_session sessions_create c success_url cancel_url d)) = users d \<and>
   products (snd (checkout_post_session sessions_create c success_url cancel_url d)) = products d \<and>
   variants (snd (checkout_post_session sessions_create c success_url cancel_url d)) = variants d \<and>
   cart_items (snd (checkout_post_session sessions_create c success_url cancel_url d)) = cart_items d \<and>
   orders (snd (checkout_post_session sessions_create c success_url cancel_url d)) = orders d \<and>
   order_items (snd (checkout_post_session sessions_create c success_url cancel_url d)) = order_items d \<and>
   stripe_webhook_events (snd (checkout_post_session sessions_create c success_url cancel_url d)) =
     stripe_webhook_events d \<and>
   (\<forall>e. fst (checkout_post_session sessions_create c success_url cancel_url d) = Inl e \<longrightarrow>
      snd (checkout_post_session sessions_create c success_url cancel_url d) = d) \<and>
   (\<forall>cartRow. fst (resolveCart c False d) = Inr (Some cartRow) \<and>
        sn_items (getCartWithItems (c_id cartRow) d) = [] \<longrightarrow>
      checkout_post_session sessions_create c success_url cancel_url d =
        (Inl (HTTPException 400 ''Cart is empty''), d)) \<and>
   (\<forall>session. fst (checkout_post_session sessions_create c success_url cancel_url d) = Inr session \<longrightarrow>
      (\<exists>cartRow. fst (resolveCart c False d) = Inr (Some cartRow) \<and>
         sn_items (getCartWithItems (c_id cartRow) d) \<noteq> [] \<and>
         snd (checkout_post_session sessions_create c success_url cancel_url d) =
           d\<lparr>carts := map (\<lambda>r. if c_id r = c_id cartRow
                                then r\<lparr>c_stripe_session_id := Some (ss_id session)\<rparr> else r)
                        (carts d)\<rparr>))"
proof -
  obtain r where res: "resolveCart c False d = (r, d)"
    using resolveCart_read_only[of c d] by (cases "resolveCart c False d") simp
  show ?thesis
  proof (cases r)
    case (Inl e)
    with res show ?thesis by (simp add: checkout_post_session_def)
  next
    case (Inr found)
    show ?thesis
    proof (cases found)
      case None
      with res Inr show ?thesis by (simp add: checkout_post_session_def)
    next
      case (Some cartRow)
      show ?thesis
      proof (cases "sn_items (getCartWithItems (c_id cartRow) d) = []")
        case True
        with res Inr Some show ?thesis by (simp add: checkout_post_session_def Let_def)
      next
        case False
        with res Inr Some show ?thesis
          by (simp add: checkout_post_session_def Let_def split: sum.splits)
      qed
    qed
  qed
qed

text \<open>On the example cart the earlier session \<open>cs_0\<close> is replaced by \<open>cs_1\<close> and
  nothing else moves; on the emptied cart the answer is \<open>400 Cart is empty\<close>.\<close>

theorem createSession_frame_witness:
  "fst (checkout_post_session ex_sessions_create ex_ctx ''https://shop/ok'' ''https://shop/cancel''
          ex_db_session) =
     Inr \<lparr>ss_id = ''cs_1'', ss_url = Some ''https://checkout.stripe.com/c/pay/cs_1''\<rparr> \<and>
   map c_stripe_session_id (carts ex_db_session) = [Some ''cs_0''] \<and>
   map c_stripe_session_id
     (carts (snd (checkout_post_session ex_sessions_create ex_ctx ''https://shop/ok''
        ''https://shop/cancel'' ex_db_session))) = [Some ''cs_1''] \<and>
   cart_items (snd (checkout_post_session ex_sessions_create ex_ctx ''https://shop/ok''
        ''https://shop/cancel'' ex_db_session)) = cart_items ex_db_session \<and>
   variants (snd (checkout_post_session ex_sessions_create ex_ctx ''https://shop/ok''
        ''https://shop/cancel'' ex_db_session)) = variants ex_db_session \<and>
   fst (resolveCart ex_ctx False ex_db_empty_cart) = Inr (Some ex_cart) \<and>
   sn_items (getCartWithItems (c_id ex_cart) ex_db_empty_cart) = [] \<and>
   checkout_post_session ex_sessions_create ex_ctx ''https://shop/ok'' ''https://shop/cancel''
       ex_db_empty_cart =
     (Inl (HTTPException 400 ''Cart is empty''), ex_db_empty_cart)"
proof -
  note t1 = createSession_frame[of ex_sessions_create ex_ctx "''https://shop/ok''"
      "''https://shop/cancel''" ex_db_session]
  note t2 = createSession_frame[of ex_sessions_create ex_ctx "''https://shop/ok''"
      "''https://shop/cancel''" ex_db_empty_cart]
  have ok: "fst (checkout_post_session ex_sessions_create ex_ctx ''https://shop/ok''
      ''https://shop/cancel'' ex_db_session) =
     Inr \<lparr>ss_id = ''cs_1'', ss_url = Some ''https://checkout.stripe.com/c/pay/cs_1''\<rparr>"
    by (simp add: checkout_post_session_def resolveCart_def getCartWithItems_def join_item_def
        List.map_filter_def variant_name_of_def stored_customer_def ex_sessions_create_def
        ex_ctx_def ex_db_session_def ex_db_def Let_def)
  have before: "map c_stripe_session_id (carts ex_db_session) = [Some ''cs_0'']"
    by (simp add: ex_db_session_def)
  have res1: "fst (resolveCart ex_ctx False ex_db_session) =
      Inr (Some \<lparr>c_id = 7, c_user_id = None, c_session_token = Some ''tok'',
                  c_stripe_session_id = Some ''cs_0''\<rparr>)"
    by (simp add: resolveCart_def ex_ctx_def ex_db_session_def ex_db_def)
  from t1 ok res1 have after:
    "snd (checkout_post_session ex_sessions_create ex_ctx ''https://shop/ok''
        ''https://shop/cancel'' ex_db_session) =
       ex_db_session\<lparr>carts := map (\<lambda>r. if c_id r = 7
                                then r\<lparr>c_stripe_session_id := Some ''cs_1''\<rparr> else r)
                        (carts ex_db_session)\<rparr>"
    by auto
  have overwritten: "map c_stripe_session_id
     (carts (snd (checkout_post_session ex_sessions_create ex_ctx ''https://shop/ok''
        ''https://shop/cancel'' ex_db_session))) = [Some ''cs_1'']"
    unfolding after by (simp add: ex_db_session_def)
  from t1 have items: "cart_items (snd (checkout_post_session ex_sessions_create ex_ctx
      ''https://shop/ok'' ''https://shop/cancel'' ex_db_session)) = cart_items ex_db_session"
    and stock: "variants (snd (checkout_post_session ex_sessions_create ex_ctx
      ''https://shop/ok'' ''https://shop/cancel'' ex_db_session)) = variants ex_db_session"
    by blast+
  have res2: "fst (resolveCart ex_ctx False ex_db_empty_cart) = Inr (Some ex_cart)"
    by (simp add: resolveCart_def ex_ctx_def ex_db_empty_cart_def ex_db_def ex_cart_def)
  have none: "sn_items (getCartWithItems (c_id ex_cart) ex_db_empty_cart) = []"
    by (simp add: getCartWithItems_def ex_db_empty_cart_def List.map_filter_def)
  from t2 res2 none have empty:
    "checkout_post_session ex_sessions_create ex_ctx ''https://shop/ok'' ''https://shop/cancel''
       ex_db_empty_cart = (Inl (HTTPException 400 ''Cart is empty''), ex_db_empty_cart)"
    by blast
  show ?thesis by (intro conjI) (fact ok before overwritten items stock res2 none empty)+
qed

section \<open>Properties of the webhook intake\<close>

lemmas webhook_eval =
  int4_def order_currency_def char3_def order_subtotal_def order_total_def
  webhooks_post_stripe_def processStripeEvent_def sql_insert_order_def order_values_def
  sql_insert_order_item_def order_item_values_def sql_decrement_stock_def sql_link_customer_def
  sql_insert_event_def sql_upsert_event_error_def li_qty_def li_amount_def truthy_def
  toUpperCase_def Let_def
  ex_db_def ex_session_def ex_line_items_def ex_broken_line_items_def ex_event_def
  ex_broken_event_def ex_uncorrelated_event_def ex_refund_event_def ex_refund_paid_event_def
  ex_db_paid_def ex_constructEvent_def ex_retrieve_def

subsection \<open>Signature first\<close>

text \<open>
  C7. When signature verification raises, the intake answers 400 at once: the dedup
  ledger is not consulted, \<open>processStripeEvent\<close> does not run, and the database,
  ledger included, is exactly as before.
\<close>

theorem invalid_signature_rejected:
  assumes "constructEvent body sig = Inl msg"
  shows "webhooks_post_stripe constructEvent sessions_retrieve body sig d =
           (Inl (HTTPException 400 (''Webhook error: '' @ msg)), d)"
  using assms by (simp add: webhooks_post_stripe_def)

theorem invalid_signature_rejected_witness:
  "ex_constructEvent ''paid'' (Some ''forged'') =
     Inl ''No signatures found matching the expected signature'' \<and>
   webhooks_post_stripe ex_constructEvent ex_retrieve ''paid'' (Some ''forged'') ex_db =
     (Inl (HTTPException 400
        ''Webhook error: No signatures found matching the expected signature''), ex_db)"
proof -
  have bad: "ex_constructEvent ''paid'' (Some ''forged'') =
     Inl ''No signatures found matching the expected signature''"
    by (simp add: ex_constructEvent_def)
  show ?thesis
    using invalid_signature_rejected[where constructEvent=ex_constructEvent and body="''paid''"
        and sig="Some ''forged''" and sessions_retrieve=ex_retrieve and d=ex_db, OF bad] bad
    by simp
qed

subsection \<open>What the statements of a settlement touch\<close>

lemma insert_order_item_frame:
  "sql_insert_order_item oid li d = (r, d') \<Longrightarrow>
     users d' = users d \<and> products d' = products d \<and> variants d' = variants d \<and>
     carts d' = carts d \<and> cart_items d' = cart_items d \<and> orders d' = orders d \<and>
     stripe_webhook_events d' = stripe_webhook_events d"
  by (auto simp: sql_insert_order_item_def split: option.splits if_splits)

lemma decrement_step_frame:
  "(case variant_id of None \<Rightarrow> (None, d1) | Some vid \<Rightarrow> sql_decrement_stock vid q d1) = (r, d2) \<Longrightarrow>
     users d2 = users d1 \<and> products d2 = products d1 \<and> carts d2 = carts d1 \<and>
     cart_items d2 = cart_items d1 \<and> orders d2 = orders d1 \<and> order_items d2 = order_items d1 \<and>
     stripe_webhook_events d2 = stripe_webhook_events d1"
  by (auto simp: sql_decrement_stock_def split: option.splits if_splits)

lemma decrement_step_stock:
  "(case variant_id of None \<Rightarrow> (None, d1) | Some vid \<Rightarrow> sql_decrement_stock vid q d1) = (None, d2) \<Longrightarrow>
     variants d2 =
       map (\<lambda>v. if variant_id = Some (v_id v) then v\<lparr>v_stock_qty := max 0 (v_stock_qty v - q)\<rparr> else v)
         (variants d1)"
  by (cases variant_id) (auto simp: sql_decrement_stock_def split: if_splits)

lemma settle_line_items_frame:
  "settle_line_items oid lis d = (r, d') \<Longrightarrow>
     users d' = users d \<and> products d' = products d \<and>
     carts d' = carts d \<and> cart_items d' = cart_items d \<and> orders d' = orders d \<and>
     stripe_webhook_events d' = stripe_webhook_events d"
proof (induction lis arbitrary: d)
  case Nil
  then show ?case by simp
next
  case (Cons li lis)
  obtain e d1 where step: "sql_insert_order_item oid li d = (e, d1)"
    by (cases "sql_insert_order_item oid li d")
  note f1 = insert_order_item_frame[OF step]
  obtain e2 d2 where dec:
    "(case li_variant_id li of None \<Rightarrow> (None, d1)
      | Some vid \<Rightarrow> sql_decrement_stock vid (li_qty li) d1) = (e2, d2)"
    by (cases "(case li_variant_id li of None \<Rightarrow> (None, d1)
      | Some vid \<Rightarrow> sql_decrement_stock vid (li_qty li) d1)")
  note f2 = decrement_step_frame[OF dec]
  show ?case
  proof (cases e)
    case (Some err)
    with Cons.prems step f1 show ?thesis by simp
  next
    case None
    note e = this
    show ?thesis
    proof (cases e2)
      case (Some err)
      with Cons.prems step e dec f1 f2 show ?thesis by simp
    next
      case None
      with Cons.prems step e dec have "settle_line_items oid lis d2 = (r, d')" by simp
      from Cons.IH[OF this] f1 f2 show ?thesis by simp
    qed
  qed
qed

lemma settle_line_items_step:
  assumes "settle_line_items oid (li # lis) d = (None, d')"
  shows "\<exists>d1 d2. sql_insert_order_item oid li d = (None, d1) \<and>
           (case li_variant_id li of None \<Rightarrow> (None, d1)
            | Some vid \<Rightarrow> sql_decrement_stock vid (li_qty li) d1) = (None, d2) \<and>
           settle_line_items oid lis d2 = (None, d')"
proof -
  obtain e d1 where step: "sql_insert_order_item oid li d = (e, d1)"
    by (cases "sql_insert_order_item oid li d")
  obtain e2 d2 where dec:
    "(case li_variant_id li of None \<Rightarrow> (None, d1)
      | Some vid \<Rightarrow> sql_decrement_stock vid (li_qty li) d1) = (e2, d2)"
    by (cases "(case li_variant_id li of None \<Rightarrow> (None, d1)
      | Some vid \<Rightarrow> sql_decrement_stock vid (li_qty li) d1)")
  from assms step have e: "e = None" by (cases e) auto
  from assms step e dec have e2: "e2 = None" by (cases e2) auto
  from assms step e dec e2 have "settle_line_items oid lis d2 = (None, d')" by simp
  with step e dec e2 show ?thesis by blast
qed

lemma settle_line_items_stock:
  "settle_line_items oid lis d = (None, d') \<Longrightarrow>
     variants d' = map (\<lambda>v. v\<lparr>v_stock_qty := settled_stock lis v\<rparr>) (variants d)"
proof (induction lis arbitrary: d)
  case Nil
  then show ?case by (simp add: settled_stock_def)
next
  case (Cons li lis)
  from settle_line_items_step[OF Cons.prems] obtain d1 d2 where
    step: "sql_insert_order_item oid li d = (None, d1)" and
    dec: "(case li_variant_id li of None \<Rightarrow> (None, d1)
            | Some vid \<Rightarrow> sql_decrement_stock vid (li_qty li) d1) = (None, d2)" and
    rest: "settle_line_items oid lis d2 = (None, d')"
    by blast
  note f1 = insert_order_item_frame[OF step]
  note v2 = decrement_step_stock[OF dec]
  from Cons.IH[OF rest] v2 f1 show ?case
    by (simp add: settled_stock_def)
qed

lemma settle_line_items_order_items:
  "settle_line_items oid lis d = (None, d') \<Longrightarrow>
     map (\<lambda>r. r\<lparr>oi_id := 0\<rparr>) (order_items d') =
       map (\<lambda>r. r\<lparr>oi_id := 0\<rparr>) (order_items d) @
       map (\<lambda>li. order_item_values 0 oid (the (li_product_id li)) li) lis"
proof (induction lis arbitrary: d)
  case Nil
  then show ?case by simp
next
  case (Cons li lis)
  from settle_line_items_step[OF Cons.prems] obtain d1 d2 where
    step: "sql_insert_order_item oid li d = (None, d1)" and
    dec: "(case li_variant_id li of None \<Rightarrow> (None, d1)
            | Some vid \<Rightarrow> sql_decrement_stock vid (li_qty li) d1) = (None, d2)" and
    rest: "settle_line_items oid lis d2 = (None, d')"
    by blast
  have d1: "order_items d1 = order_items d @ [order_item_values (next_uuid d) oid (the (li_product_id li)) li]"
    using step by (auto simp: sql_insert_order_item_def split: option.splits if_splits)
  from decrement_step_frame[OF dec] have "order_items d2 = order_items d1" by simp
  with Cons.IH[OF rest] d1 show ?case by (simp add: order_item_values_def)
qed

lemma insert_order_frame:
  "sql_insert_order userId session d = (r, d') \<Longrightarrow>
     users d' = users d \<and> products d' = products d \<and> variants d' = variants d \<and>
     carts d' = carts d \<and> cart_items d' = cart_items d \<and> order_items d' = order_items d \<and>
     stripe_webhook_events d' = stripe_webhook_events d"
  by (auto simp: sql_insert_order_def split: if_splits)

lemma link_customer_frame:
  "sql_link_customer userId customer d = (r, d') \<Longrightarrow>
     products d' = products d \<and> variants d' = variants d \<and>
     carts d' = carts d \<and> cart_items d' = cart_items d \<and> orders d' = orders d \<and>
     order_items d' = order_items d \<and> stripe_webhook_events d' = stripe_webhook_events d"
  by (auto simp: sql_link_customer_def split: if_splits)

lemma processStripeEvent_ledger:
  "processStripeEvent sessions_retrieve event d = (r, d1) \<Longrightarrow>
     stripe_webhook_events d1 = stripe_webhook_events d"
proof (cases "ev_data event")
  case (Checkout_session_completed session)
  assume run: "processStripeEvent sessions_retrieve event d = (r, d1)"
  show ?thesis
  proof (cases "cs_cart_id session")
    case None
    with run Checkout_session_completed show ?thesis by (simp add: processStripeEvent_def)
  next
    case (Some cartId)
    show ?thesis
    proof (cases "sessions_retrieve (cs_id session)")
      case (Inl e)
      with run Checkout_session_completed Some show ?thesis by (simp add: processStripeEvent_def)
    next
      case (Inr fullSession)
      obtain r1 d2 where ins: "sql_insert_order (cs_user_id session) session d = (r1, d2)"
        by (cases "sql_insert_order (cs_user_id session) session d")
      note f1 = insert_order_frame[OF ins]
      show ?thesis
      proof (cases r1)
        case (Inl e)
        with run Checkout_session_completed Some Inr ins f1 show ?thesis
          by (simp add: processStripeEvent_def Let_def)
      next
        case (Inr oid)
        note oid = this
        obtain r2 d3 where st:
          "settle_line_items oid (case fullSession of None \<Rightarrow> [] | Some l \<Rightarrow> l) d2 = (r2, d3)"
          by (cases "settle_line_items oid (case fullSession of None \<Rightarrow> [] | Some l \<Rightarrow> l) d2")
        note f2 = settle_line_items_frame[OF st]
        obtain r3 d4 where lk:
          "(if cs_user_id session \<noteq> None \<and> truthy (cs_customer session)
            then sql_link_customer (the (cs_user_id session)) (the (cs_customer session)) d3
            else (None, d3)) = (r3, d4)"
          by (cases "(if cs_user_id session \<noteq> None \<and> truthy (cs_customer session)
            then sql_link_customer (the (cs_user_id session)) (the (cs_customer session)) d3
            else (None, d3))")
        have f3: "stripe_webhook_events d4 = stripe_webhook_events d3"
          using lk link_customer_frame by (auto split: if_splits)
        from run Checkout_session_completed Some \<open>sessions_retrieve (cs_id session) = Inr fullSession\<close>
          ins oid st lk f1 f2 f3
        show ?thesis
          by (cases r2; cases r3) (auto simp: processStripeEvent_def Let_def)
      qed
    qed
  qed
qed (auto simp: processStripeEvent_def)

lemma checkout_completed_chain:
  assumes ev: "ev_data event = Checkout_session_completed session"
    and cart: "cs_cart_id session = Some cartId"
    and full: "sessions_retrieve (cs_id session) = Inr fullSession"
    and run: "processStripeEvent sessions_retrieve event d = (None, d1)"
  shows "\<exists>d2 d3 d4.
      sql_insert_order (cs_user_id session) session d = (Inr (next_uuid d), d2) \<and>
      settle_line_items (next_uuid d) (case fullSession of None \<Rightarrow> [] | Some l \<Rightarrow> l) d2 = (None, d3) \<and>
      (if cs_user_id session \<noteq> None \<and> truthy (cs_customer session)
       then sql_link_customer (the (cs_user_id session)) (the (cs_customer session)) d3
       else (None, d3)) = (None, d4) \<and>
      d1 = d4\<lparr>cart_items := filter (\<lambda>r. ci_cart_id r \<noteq> cartId) (cart_items d4)\<rparr>"
proof -
  obtain r1 d2 where ins: "sql_insert_order (cs_user_id session) session d = (r1, d2)"
    by (cases "sql_insert_order (cs_user_id session) session d")
  from run ev cart full ins obtain oid where oid: "r1 = Inr oid"
    by (cases r1) (auto simp: processStripeEvent_def Let_def)
  from ins oid have oid_eq: "oid = next_uuid d"
    by (auto simp: sql_insert_order_def split: if_splits)
  obtain r2 d3 where st:
    "settle_line_items oid (case fullSession of None \<Rightarrow> [] | Some l \<Rightarrow> l) d2 = (r2, d3)"
    by (cases "settle_line_items oid (case fullSession of None \<Rightarrow> [] | Some l \<Rightarrow> l) d2")
  from run ev cart full ins oid st have r2: "r2 = None"
    by (cases r2) (auto simp: processStripeEvent_def Let_def)
  obtain r3 d4 where lk:
    "(if cs_user_id session \<noteq> None \<and> truthy (cs_customer session)
      then sql_link_customer (the (cs_user_id session)) (the (cs_customer session)) d3
      else (None, d3)) = (r3, d4)"
    by (cases "(if cs_user_id session \<noteq> None \<and> truthy (cs_customer session)
      then sql_link_customer (the (cs_user_id session)) (the (cs_customer session)) d3
      else (None, d3))")
  from run ev cart full ins oid st r2 lk have r3: "r3 = None"
    by (cases r3) (auto simp: processStripeEvent_def Let_def)
  from run ev cart full ins oid st r2 lk r3
  have "d1 = d4\<lparr>cart_items := filter (\<lambda>r. ci_cart_id r \<noteq> cartId) (cart_items d4)\<rparr>"
    by (auto simp: processStripeEvent_def Let_def)
  with ins oid oid_eq st r2 lk r3 show ?thesis by blast
qed

lemma checkout_completed_effects:
  assumes ev: "ev_data event = Checkout_session_completed session"
    and cart: "cs_cart_id session = Some cartId"
    and full: "sessions_retrieve (cs_id session) = Inr fullSession"
    and run: "processStripeEvent sessions_retrieve event d = (None, d1)"
  shows "orders d1 = orders d @ [order_values (next_uuid d) (cs_user_id session) session] \<and>
    find (\<lambda>r. o_stripe_session_id r = Some (cs_id session)) (orders d) = None \<and>
    map (\<lambda>r. r\<lparr>oi_id := 0\<rparr>) (order_items d1) =
      map (\<lambda>r. r\<lparr>oi_id := 0\<rparr>) (order_items d) @
      map (\<lambda>li. order_item_values 0 (next_uuid d) (the (li_product_id li)) li)
        (case fullSession of None \<Rightarrow> [] | Some l \<Rightarrow> l) \<and>
    variants d1 =
      map (\<lambda>v. v\<lparr>v_stock_qty := settled_stock (case fullSession of None \<Rightarrow> [] | Some l \<Rightarrow> l) v\<rparr>)
        (variants d) \<and>
    cart_items d1 = filter (\<lambda>r. ci_cart_id r \<noteq> cartId) (cart_items d)"
proof -
  from checkout_completed_chain[OF assms] obtain d2 d3 d4 where
    ins: "sql_insert_order (cs_user_id session) session d = (Inr (next_uuid d), d2)" and
    st: "settle_line_items (next_uuid d) (case fullSession of None \<Rightarrow> [] | Some l \<Rightarrow> l) d2 = (None, d3)" and
    lk: "(if cs_user_id session \<noteq> None \<and> truthy (cs_customer session)
       then sql_link_customer (the (cs_user_id session)) (the (cs_customer session)) d3
       else (None, d3)) = (None, d4)" and
    d1: "d1 = d4\<lparr>cart_items := filter (\<lambda>r. ci_cart_id r \<noteq> cartId) (cart_items d4)\<rparr>"
    by blast
  note f1 = insert_order_frame[OF ins]
  note f2 = settle_line_items_frame[OF st]
  have f3: "variants d4 = variants d3 \<and> cart_items d4 = cart_items d3 \<and> orders d4 = orders d3 \<and>
      order_items d4 = order_items d3"
    using lk link_customer_frame by (auto split: if_splits)
  have o2: "orders d2 = orders d @ [order_values (next_uuid d) (cs_user_id session) session]"
    and fresh: "find (\<lambda>r. o_stripe_session_id r = Some (cs_id session)) (orders d) = None"
    using ins by (auto simp: sql_insert_order_def split: if_splits)
  show ?thesis
    using o2 fresh f1 f2 f3 d1 settle_line_items_stock[OF st] settle_line_items_order_items[OF st]
    by simp
qed

lemma checkout_completed_raised:
  assumes ev: "ev_data event = Checkout_session_completed session"
    and cart: "cs_cart_id session = Some cartId"
    and run: "processStripeEvent sessions_retrieve event d = (Some err, d1)"
  shows "cart_items d1 = cart_items d \<and>
         (orders d1 = orders d \<or>
          orders d1 = orders d @ [order_values (next_uuid d) (cs_user_id session) session])"
proof (cases "sessions_retrieve (cs_id session)")
  case (Inl e)
  with run ev cart show ?thesis by (simp add: processStripeEvent_def)
next
  case (Inr fullSession)
  note full = this
  obtain r1 d2 where ins: "sql_insert_order (cs_user_id session) session d = (r1, d2)"
    by (cases "sql_insert_order (cs_user_id session) session d")
  note f1 = insert_order_frame[OF ins]
  show ?thesis
  proof (cases r1)
    case (Inl e)
    with ins have "d2 = d" by (auto simp: sql_insert_order_def split: if_splits)
    with run ev cart full ins Inl show ?thesis by (simp add: processStripeEvent_def Let_def)
  next
    case (Inr oid)
    with ins have o2: "orders d2 = orders d @ [order_values (next_uuid d) (cs_user_id session) session]"
      by (auto simp: sql_insert_order_def split: if_splits)
    obtain r2 d3 where st:
      "settle_line_items oid (case fullSession of None \<Rightarrow> [] | Some l \<Rightarrow> l) d2 = (r2, d3)"
      by (cases "settle_line_items oid (case fullSession of None \<Rightarrow> [] | Some l \<Rightarrow> l) d2")
    note f2 = settle_line_items_frame[OF st]
    obtain r3 d4 where lk:
      "(if cs_user_id session \<noteq> None \<and> truthy (cs_customer session)
        then sql_link_customer (the (cs_user_id session)) (the (cs_customer session)) d3
        else (None, d3)) = (r3, d4)"
      by (cases "(if cs_user_id session \<noteq> None \<and> truthy (cs_customer session)
        then sql_link_customer (the (cs_user_id session)) (the (cs_customer session)) d3
        else (None, d3))")
    have f3: "cart_items d4 = cart_items d3 \<and> orders d4 = orders d3"
      using lk link_customer_frame by (auto split: if_splits)
    from run ev cart full ins Inr st lk have "d1 = d3 \<or> d1 = d4"
      by (cases r2; cases r3) (auto simp: processStripeEvent_def Let_def)
    with f1 f2 f3 o2 show ?thesis by auto
  qed
qed

lemma checkout_completed_retrieved:
  assumes ev: "ev_data event = Checkout_session_completed session"
    and cart: "cs_cart_id session = Some cartId"
    and run: "processStripeEvent sessions_retrieve event d = (None, d1)"
  shows "\<exists>fullSession. sessions_retrieve (cs_id session) = Inr fullSession"
  using assms by (cases "sessions_retrieve (cs_id session)") (auto simp: processStripeEvent_def)

lemma processStripeEvent_no_settlement:
  assumes "\<forall>session. ev_data event = Checkout_session_completed session \<longrightarrow> cs_cart_id session = None"
  shows "\<exists>d1. processStripeEvent sessions_retrieve event d = (None, d1) \<and>
           length (orders d1) = length (orders d) \<and> order_items d1 = order_items d \<and>
           variants d1 = variants d \<and> cart_items d1 = cart_items d"
  using assms by (cases "ev_data event") (auto simp: processStripeEvent_def)

subsection \<open>The ledger\<close>

lemma webhook_unseen:
  assumes "constructEvent body sig = Inr event"
    and "find (\<lambda>r. we_id r = ev_id event) (stripe_webhook_events d) = None"
    and "processStripeEvent sessions_retrieve event d = (r, d1)"
  shows "webhooks_post_stripe constructEvent sessions_retrieve body sig d =
     (case r of
        Some err \<Rightarrow>
          (Inl (HTTPException 500 ''Webhook processing failed''),
           d1\<lparr>stripe_webhook_events := stripe_webhook_events d @
                [\<lparr>we_id = ev_id event, we_type = event_type (ev_data event),
                  we_payload = event, we_error = Some (message err)\<rparr>]\<rparr>)
      | None \<Rightarrow>
          (Inr Received,
           d1\<lparr>stripe_webhook_events := stripe_webhook_events d @
                [\<lparr>we_id = ev_id event, we_type = event_type (ev_data event),
                  we_payload = event, we_error = None\<rparr>]\<rparr>))"
  using assms processStripeEvent_ledger[OF assms(3)]
  by (cases r)
    (simp_all add: webhooks_post_stripe_def filter_empty_find sql_insert_event_def
      sql_upsert_event_error_def)

lemma received_first:
  assumes ce: "constructEvent body sig = Inr event"
    and first: "webhooks_post_stripe constructEvent sessions_retrieve body sig d = (Inr Received, d1)"
  shows "\<exists>d'. processStripeEvent sessions_retrieve event d = (None, d') \<and>
           d1 = d'\<lparr>stripe_webhook_events := stripe_webhook_events d @
                  [\<lparr>we_id = ev_id event, we_type = event_type (ev_data event),
                    we_payload = event, we_error = None\<rparr>]\<rparr>"
proof -
  have unseen: "find (\<lambda>r. we_id r = ev_id event) (stripe_webhook_events d) = None"
    using ce first by (auto simp: webhooks_post_stripe_def filter_empty_find split: if_splits)
  obtain r d' where run: "processStripeEvent sessions_retrieve event d = (r, d')"
    by (cases "processStripeEvent sessions_retrieve event d")
  from webhook_unseen[where constructEvent=constructEvent and body=body and sig=sig, OF ce unseen run] first show ?thesis
    using run by (cases r) auto
qed

lemma upsert_event_error_row:
  "\<exists>row. find (\<lambda>r. we_id r = ev_id event) (stripe_webhook_events (sql_upsert_event_error event msg d)) = Some row
      \<and> we_error row = Some msg"
proof -
  have mapped: "find (\<lambda>r. we_id r = k) xs \<noteq> None \<Longrightarrow>
      \<exists>row. find (\<lambda>r. we_id r = k)
              (map (\<lambda>r. if we_id r = k then r\<lparr>we_error := Some msg\<rparr> else r) xs) = Some row
            \<and> we_error row = Some msg" for k and xs :: "webhook_event_row list"
    by (induction xs) auto
  have appended: "find (\<lambda>r. we_id r = k) xs = None \<Longrightarrow>
      find (\<lambda>r. we_id r = k) (xs @ [x]) = (if we_id x = k then Some x else None)"
    for k x and xs :: "webhook_event_row list"
    by (induction xs) auto
  show ?thesis
    using mapped[of "ev_id event" "stripe_webhook_events d"]
      appended[of "ev_id event" "stripe_webhook_events d"]
    by (auto simp: sql_upsert_event_error_def)
qed

lemma duplicate_delivery:
  assumes "carries constructEvent event_id (body, sig)"
    and "find (\<lambda>r. we_id r = event_id) (stripe_webhook_events d) \<noteq> None"
  shows "webhooks_post_stripe constructEvent sessions_retrieve body sig d = (Inr Received_duplicate, d)"
  using assms
  by (auto simp: carries_def webhooks_post_stripe_def filter_empty_find split: sum.splits)

lemma deliver_duplicates:
  assumes "list_all (carries constructEvent event_id) deliveries"
    and "find (\<lambda>r. we_id r = event_id) (stripe_webhook_events d) \<noteq> None"
  shows "deliver constructEvent sessions_retrieve deliveries d =
           (replicate (length deliveries) (Inr Received_duplicate), d)"
  using assms
proof (induction deliveries)
  case Nil
  then show ?case by simp
next
  case (Cons x xs)
  obtain body sig where x: "x = (body, sig)" by (cases x)
  from Cons.prems x have "carries constructEvent event_id (body, sig)" by simp
  from duplicate_delivery[OF this Cons.prems(2)] Cons x show ?case by simp
qed

lemma deliver_first:
  assumes ce: "constructEvent body sig = Inr event"
    and unseen: "find (\<lambda>r. we_id r = ev_id event) (stripe_webhook_events d) = None"
    and later: "list_all (carries constructEvent (ev_id event)) redeliveries"
    and run: "processStripeEvent sessions_retrieve event d = (r, d1)"
  shows "deliver constructEvent sessions_retrieve ((body, sig) # redeliveries) d =
           ((case r of None \<Rightarrow> Inr Received
             | Some err \<Rightarrow> Inl (HTTPException 500 ''Webhook processing failed''))
              # replicate (length redeliveries) (Inr Received_duplicate),
            d1\<lparr>stripe_webhook_events := stripe_webhook_events d @
                 [\<lparr>we_id = ev_id event, we_type = event_type (ev_data event),
                   we_payload = event, we_error = map_option message r\<rparr>]\<rparr>)"
proof -
  define d2 where "d2 = d1\<lparr>stripe_webhook_events := stripe_webhook_events d @
                 [\<lparr>we_id = ev_id event, we_type = event_type (ev_data event),
                   we_payload = event, we_error = map_option message r\<rparr>]\<rparr>"
  have first: "webhooks_post_stripe constructEvent sessions_retrieve body sig d =
      ((case r of None \<Rightarrow> Inr Received
        | Some err \<Rightarrow> Inl (HTTPException 500 ''Webhook processing failed'')), d2)"
    using webhook_unseen[where constructEvent=constructEvent and body=body and sig=sig,
        OF ce unseen run]
    by (cases r) (simp_all add: d2_def)
  have seen: "find (\<lambda>r. we_id r = ev_id event) (stripe_webhook_events d2) \<noteq> None"
    by (simp add: d2_def find_append_last split: option.splits)
  from first deliver_duplicates[OF later seen, of sessions_retrieve]
  show ?thesis by (simp add: d2_def)
qed

subsection \<open>Repeated deliveries\<close>

text \<open>
  C1 (amended). Take a verified event that the ledger does not hold yet, delivered once
  and then again any number of times by deliveries that verify and carry the same event
  identifier. \<open>processStripeEvent\<close> runs once, on the first delivery: the run leaves the
  database as that one execution left it, plus one ledger row, and every later delivery
  is answered \<open>{received: true, duplicate: true}\<close>. The first delivery is answered
  \<open>{received: true}\<close> when processing ends without raising, and 500 when it raises.
  For a payment-succeeded event that carries a cart identifier and is processed to the
  end there is exactly one new Order, the only one with that session identifier, one
  OrderItem per line item, and the stock of every variant lowered once per line item that
  names it, floored at zero. When processing of such an event raises, at most one new
  Order is left. An event of any other kind, and a payment-succeeded event with no cart
  identifier, is processed without raising and adds no Order, no OrderItem and no stock
  change.
\<close>

theorem settlement_idempotent:
  assumes ce: "constructEvent body sig = Inr event"
    and unseen: "find (\<lambda>r. we_id r = ev_id event) (stripe_webhook_events d) = None"
    and later: "list_all (carries constructEvent (ev_id event)) redeliveries"
  shows "(\<exists>r d1. processStripeEvent sessions_retrieve event d = (r, d1) \<and>
            deliver constructEvent sessions_retrieve ((body, sig) # redeliveries) d =
              ((case r of None \<Rightarrow> Inr Received
                | Some err \<Rightarrow> Inl (HTTPException 500 ''Webhook processing failed''))
                 # replicate (length redeliveries) (Inr Received_duplicate),
               d1\<lparr>stripe_webhook_events := stripe_webhook_events d @
                    [\<lparr>we_id = ev_id event, we_type = event_type (ev_data event),
                      we_payload = event, we_error = map_option message r\<rparr>]\<rparr>)) \<and>
         (\<forall>session cartId d1.
            ev_data event = Checkout_session_completed session \<and>
            cs_cart_id session = Some cartId \<and>
            processStripeEvent sessions_retrieve event d = (None, d1) \<longrightarrow>
              orders d1 = orders d @ [order_values (next_uuid d) (cs_user_id session) session] \<and>
              filter (\<lambda>r. o_stripe_session_id r = Some (cs_id session)) (orders d1) =
                [order_values (next_uuid d) (cs_user_id session) session] \<and>
              (\<exists>fullSession. sessions_retrieve (cs_id session) = Inr fullSession \<and>
                 map (\<lambda>r. r\<lparr>oi_id := 0\<rparr>) (order_items d1) =
                   map (\<lambda>r. r\<lparr>oi_id := 0\<rparr>) (order_items d) @
                   map (\<lambda>li. order_item_values 0 (next_uuid d) (the (li_product_id li)) li)
                     (case fullSession of None \<Rightarrow> [] | Some l \<Rightarrow> l) \<and>
                 variants d1 =
                   map (\<lambda>v. v\<lparr>v_stock_qty :=
                                  settled_stock (case fullSession of None \<Rightarrow> [] | Some l \<Rightarrow> l) v\<rparr>)
                     (variants d))) \<and>
         (\<forall>session cartId err d1.
            ev_data event = Checkout_session_completed session \<and>
            cs_cart_id session = Some cartId \<and>
            processStripeEvent sessions_retrieve event d = (Some err, d1) \<longrightarrow>
              orders d1 = orders d \<or>
              orders d1 = orders d @ [order_values (next_uuid d) (cs_user_id session) session]) \<and>
         ((\<forall>session. ev_data event = Checkout_session_completed session \<longrightarrow>
             cs_cart_id session = None) \<longrightarrow>
            (\<exists>d1. processStripeEvent sessions_retrieve event d = (None, d1) \<and>
               length (orders d1) = length (orders d) \<and> order_items d1 = order_items d \<and>
               variants d1 = variants d))"
proof (intro conjI allI impI)
  obtain r d1 where run: "processStripeEvent sessions_retrieve event d = (r, d1)"
    by (cases "processStripeEvent sessions_retrieve event d")
  from run deliver_first[OF ce unseen later run]
  show "\<exists>r d1. processStripeEvent sessions_retrieve event d = (r, d1) \<and>
      deliver constructEvent sessions_retrieve ((body, sig) # redeliveries) d =
        ((case r of None \<Rightarrow> Inr Received
          | Some err \<Rightarrow> Inl (HTTPException 500 ''Webhook processing failed''))
           # replicate (length redeliveries) (Inr Received_duplicate),
         d1\<lparr>stripe_webhook_events := stripe_webhook_events d @
              [\<lparr>we_id = ev_id event, we_type = event_type (ev_data event),
                we_payload = event, we_error = map_option message r\<rparr>]\<rparr>)"
    by blast
next
  fix session cartId d1
  assume a: "ev_data event = Checkout_session_completed session \<and>
      cs_cart_id session = Some cartId \<and>
      processStripeEvent sessions_retrieve event d = (None, d1)"
  then have ev: "ev_data event = Checkout_session_completed session"
    and cart: "cs_cart_id session = Some cartId"
    and run: "processStripeEvent sessions_retrieve event d = (None, d1)"
    by simp_all
  from checkout_completed_retrieved[OF ev cart run] obtain fullSession where
    full: "sessions_retrieve (cs_id session) = Inr fullSession" by blast
  note eff = checkout_completed_effects[OF ev cart full run]
  from eff show new: "orders d1 = orders d @ [order_values (next_uuid d) (cs_user_id session) session]"
    by blast
  from eff show "filter (\<lambda>r. o_stripe_session_id r = Some (cs_id session)) (orders d1) =
      [order_values (next_uuid d) (cs_user_id session) session]"
    by (simp add: filter_empty_find order_values_def)
  from full eff show "\<exists>fullSession. sessions_retrieve (cs_id session) = Inr fullSession \<and>
      map (\<lambda>r. r\<lparr>oi_id := 0\<rparr>) (order_items d1) =
        map (\<lambda>r. r\<lparr>oi_id := 0\<rparr>) (order_items d) @
        map (\<lambda>li. order_item_values 0 (next_uuid d) (the (li_product_id li)) li)
          (case fullSession of None \<Rightarrow> [] | Some l \<Rightarrow> l) \<and>
      variants d1 =
        map (\<lambda>v. v\<lparr>v_stock_qty :=
                       settled_stock (case fullSession of None \<Rightarrow> [] | Some l \<Rightarrow> l) v\<rparr>)
          (variants d)"
    by blast
next
  fix session cartId err d1
  assume a: "ev_data event = Checkout_session_completed session \<and>
      cs_cart_id session = Some cartId \<and>
      processStripeEvent sessions_retrieve event d = (Some err, d1)"
  then have ev: "ev_data event = Checkout_session_completed session"
    and cart: "cs_cart_id session = Some cartId"
    and run: "processStripeEvent sessions_retrieve event d = (Some err, d1)"
    by simp_all
  from checkout_completed_raised[OF ev cart run]
  show "orders d1 = orders d \<or>
      orders d1 = orders d @ [order_values (next_uuid d) (cs_user_id session) session]"
    by blast
next
  assume other: "\<forall>session. ev_data event = Checkout_session_completed session \<longrightarrow>
      cs_cart_id session = None"
  from processStripeEvent_no_settlement[OF other, of sessions_retrieve d]
  show "\<exists>d1. processStripeEvent sessions_retrieve event d = (None, d1) \<and>
      length (orders d1) = length (orders d) \<and> order_items d1 = order_items d \<and>
      variants d1 = variants d"
    by blast
qed

text \<open>The paid checkout of the example cart, delivered three times: one Order, and
  the stock of variant 30 goes from 4 to 1 once.\<close>

theorem settlement_idempotent_witness:
  "ex_constructEvent ''paid'' (Some ''valid'') = Inr ex_event \<and>
   find (\<lambda>r. we_id r = ev_id ex_event) (stripe_webhook_events ex_db) = None \<and>
   list_all (carries ex_constructEvent (ev_id ex_event))
     [(''paid'', Some ''valid''), (''paid'', Some ''valid'')] \<and>
   ev_data ex_event = Checkout_session_completed ex_session \<and>
   cs_cart_id ex_session = Some 7 \<and>
   fst (processStripeEvent ex_retrieve ex_event ex_db) = None \<and>
   fst (deliver ex_constructEvent ex_retrieve
          [(''paid'', Some ''valid''), (''paid'', Some ''valid''), (''paid'', Some ''valid'')] ex_db) =
     [Inr Received, Inr Received_duplicate, Inr Received_duplicate] \<and>
   length (orders (snd (deliver ex_constructEvent ex_retrieve
     [(''paid'', Some ''valid''), (''paid'', Some ''valid''), (''paid'', Some ''valid'')] ex_db))) = 1 \<and>
   map v_stock_qty (variants (snd (deliver ex_constructEvent ex_retrieve
     [(''paid'', Some ''valid''), (''paid'', Some ''valid''), (''paid'', Some ''valid'')] ex_db))) = [1]"
proof -
  define d1 where "d1 = snd (processStripeEvent ex_retrieve ex_event ex_db)"
  have ce: "ex_constructEvent ''paid'' (Some ''valid'') = Inr ex_event"
    by (simp add: ex_constructEvent_def)
  have unseen: "find (\<lambda>r. we_id r = ev_id ex_event) (stripe_webhook_events ex_db) = None"
    by (simp add: ex_db_def)
  have later: "list_all (carries ex_constructEvent (ev_id ex_event))
     [(''paid'', Some ''valid''), (''paid'', Some ''valid'')]"
    by (simp add: carries_def ce)
  have ev: "ev_data ex_event = Checkout_session_completed ex_session"
    by (simp add: ex_event_def)
  have cart: "cs_cart_id ex_session = Some 7" by (simp add: ex_session_def)
  have finished: "fst (processStripeEvent ex_retrieve ex_event ex_db) = None"
    by (simp add: webhook_eval)
  then have run: "processStripeEvent ex_retrieve ex_event ex_db = (None, d1)"
    by (simp add: d1_def prod_eq_iff)
  have full: "ex_retrieve (cs_id ex_session) = Inr (Some ex_line_items)"
    by (simp add: ex_retrieve_def ex_session_def)
  have stock: "map (\<lambda>v. settled_stock ex_line_items v) (variants ex_db) = [1]"
    by (simp add: settled_stock_def ex_line_items_def ex_db_def li_qty_def)
  have none: "orders ex_db = []" by (simp add: ex_db_def)
  note t = settlement_idempotent[where constructEvent=ex_constructEvent and body="''paid''"
      and sig="Some ''valid''" and sessions_retrieve=ex_retrieve, OF ce unseen later]
  from conjunct1[OF t] run
  have del: "deliver ex_constructEvent ex_retrieve
      [(''paid'', Some ''valid''), (''paid'', Some ''valid''), (''paid'', Some ''valid'')] ex_db =
      ([Inr Received, Inr Received_duplicate, Inr Received_duplicate],
       d1\<lparr>stripe_webhook_events := stripe_webhook_events ex_db @
            [\<lparr>we_id = ev_id ex_event, we_type = event_type (ev_data ex_event),
              we_payload = ex_event, we_error = None\<rparr>]\<rparr>)"
    by auto
  note eff = conjunct1[OF conjunct2[OF t], rule_format, of ex_session 7 d1]
  from eff ev cart run none have ord: "length (orders d1) = 1" by simp
  from eff ev cart run full have "variants d1 =
      map (\<lambda>v. v\<lparr>v_stock_qty := settled_stock ex_line_items v\<rparr>) (variants ex_db)"
    by auto
  with stock have var: "map v_stock_qty (variants d1) = [1]" by (simp add: comp_def)
  have answers: "fst (deliver ex_constructEvent ex_retrieve
      [(''paid'', Some ''valid''), (''paid'', Some ''valid''), (''paid'', Some ''valid'')] ex_db) =
      [Inr Received, Inr Received_duplicate, Inr Received_duplicate]"
    by (simp only: del fst_conv)
  have ord': "length (orders (snd (deliver ex_constructEvent ex_retrieve
      [(''paid'', Some ''valid''), (''paid'', Some ''valid''), (''paid'', Some ''valid'')] ex_db))) = 1"
    unfolding del snd_conv using ord by simp
  have var': "map v_stock_qty (variants (snd (deliver ex_constructEvent ex_retrieve
      [(''paid'', Some ''valid''), (''paid'', Some ''valid''), (''paid'', Some ''valid'')] ex_db))) = [1]"
    unfolding del snd_conv using var by simp
  show ?thesis
    by (intro conjI) (fact ce unseen later ev cart finished answers ord' var')+
qed

text \<open>Two events for which N deliveries do not give one Order and N acknowledgments.
  The completed session \<open>cs_5\<close> names no cart: three deliveries are acknowledged, and
  there is no Order and no stock decrement. The session \<open>cs_2\<close> has a second line item
  that cannot be inserted: the first delivery is answered 500, the two later ones are
  answered as duplicates, and the Order is left with one of its two items.\<close>

theorem settlement_one_order_counterexample:
  "list_all (carries ex_constructEvent ''evt_5'')
     [(''uncorrelated'', Some ''valid''), (''uncorrelated'', Some ''valid''),
      (''uncorrelated'', Some ''valid'')] \<and>
   deliver ex_constructEvent ex_retrieve
     [(''uncorrelated'', Some ''valid''), (''uncorrelated'', Some ''valid''),
      (''uncorrelated'', Some ''valid'')] ex_db =
     ([Inr Received, Inr Received_duplicate, Inr Received_duplicate],
      ex_db\<lparr>stripe_webhook_events :=
               [\<lparr>we_id = ''evt_5'', we_type = ''checkout.session.completed'',
                 we_payload = ex_uncorrelated_event, we_error = None\<rparr>]\<rparr>) \<and>
   orders ex_db = [] \<and>
   list_all (carries ex_constructEvent ''evt_2'')
     [(''broken'', Some ''valid''), (''broken'', Some ''valid''), (''broken'', Some ''valid'')] \<and>
   fst (deliver ex_constructEvent ex_retrieve
     [(''broken'', Some ''valid''), (''broken'', Some ''valid''), (''broken'', Some ''valid'')]
     ex_db) =
     [Inl (HTTPException 500 ''Webhook processing failed''), Inr Received_duplicate,
      Inr Received_duplicate] \<and>
   map o_stripe_session_id
     (orders (snd (deliver ex_constructEvent ex_retrieve
        [(''broken'', Some ''valid''), (''broken'', Some ''valid''), (''broken'', Some ''valid'')]
        ex_db))) = [Some ''cs_2''] \<and>
   length ex_broken_line_items = 2 \<and>
   map oi_product_id
     (order_items (snd (deliver ex_constructEvent ex_retrieve
        [(''broken'', Some ''valid''), (''broken'', Some ''valid''), (''broken'', Some ''valid'')]
        ex_db))) = [11]"
proof -
  have a: "list_all (carries ex_constructEvent ''evt_5'')
     [(''uncorrelated'', Some ''valid''), (''uncorrelated'', Some ''valid''),
      (''uncorrelated'', Some ''valid'')]"
    by (simp add: carries_def ex_constructEvent_def ex_uncorrelated_event_def)
  have b: "deliver ex_constructEvent ex_retrieve
     [(''uncorrelated'', Some ''valid''), (''uncorrelated'', Some ''valid''),
      (''uncorrelated'', Some ''valid'')] ex_db =
     ([Inr Received, Inr Received_duplicate, Inr Received_duplicate],
      ex_db\<lparr>stripe_webhook_events :=
               [\<lparr>we_id = ''evt_5'', we_type = ''checkout.session.completed'',
                 we_payload = ex_uncorrelated_event, we_error = None\<rparr>]\<rparr>)"
    by (simp add: webhooks_post_stripe_def processStripeEvent_def sql_insert_event_def
        ex_constructEvent_def ex_uncorrelated_event_def ex_session_def ex_db_def)
  have c: "orders ex_db = []" by (simp add: ex_db_def)
  have d: "list_all (carries ex_constructEvent ''evt_2'')
     [(''broken'', Some ''valid''), (''broken'', Some ''valid''), (''broken'', Some ''valid'')]"
    by (simp add: carries_def ex_constructEvent_def ex_broken_event_def)
  have first: "fst (webhooks_post_stripe ex_constructEvent ex_retrieve ''broken'' (Some ''valid'')
      ex_db) = Inl (HTTPException 500 ''Webhook processing failed'')"
    by (simp add: webhook_eval)
  have seen: "find (\<lambda>r. we_id r = ''evt_2'')
      (stripe_webhook_events (snd (webhooks_post_stripe ex_constructEvent ex_retrieve ''broken''
         (Some ''valid'') ex_db))) \<noteq> None"
    by (simp add: webhook_eval)
  have run: "deliver ex_constructEvent ex_retrieve
     [(''broken'', Some ''valid''), (''broken'', Some ''valid''), (''broken'', Some ''valid'')]
     ex_db =
     ([Inl (HTTPException 500 ''Webhook processing failed''), Inr Received_duplicate,
       Inr Received_duplicate],
      snd (webhooks_post_stripe ex_constructEvent ex_retrieve ''broken'' (Some ''valid'') ex_db))"
    using first deliver_duplicates[where constructEvent=ex_constructEvent and event_id="''evt_2''"
        and deliveries="[(''broken'', Some ''valid''), (''broken'', Some ''valid'')]"
        and sessions_retrieve=ex_retrieve, OF _ seen]
    by (simp add: carries_def ex_constructEvent_def ex_broken_event_def split_beta)
  have e: "fst (deliver ex_constructEvent ex_retrieve
     [(''broken'', Some ''valid''), (''broken'', Some ''valid''), (''broken'', Some ''valid'')]
     ex_db) =
     [Inl (HTTPException 500 ''Webhook processing failed''), Inr Received_duplicate,
      Inr Received_duplicate]"
    by (simp only: run fst_conv)
  have f: "map o_stripe_session_id
     (orders (snd (deliver ex_constructEvent ex_retrieve
        [(''broken'', Some ''valid''), (''broken'', Some ''valid''), (''broken'', Some ''valid'')]
        ex_db))) = [Some ''cs_2'']"
    unfolding run snd_conv by (simp add: webhook_eval)
  have g: "length ex_broken_line_items = 2" by (simp add: ex_broken_line_items_def)
  have h: "map oi_product_id
     (order_items (snd (deliver ex_constructEvent ex_retrieve
        [(''broken'', Some ''valid''), (''broken'', Some ''valid''), (''broken'', Some ''valid'')]
        ex_db))) = [11]"
    unfolding run snd_conv by (simp add: webhook_eval)
  show ?thesis by (intro conjI) (fact a b c d e f g h)+
qed

text \<open>
  C10. When a delivery is answered 500 because processing raised, the ledger holds a row
  for the event with an error text, and from then on every delivery that verifies and
  carries the same event identifier is answered \<open>{received: true, duplicate: true}\<close>
  with no change to the database: the check at the top looks only for the row, not at
  its outcome.
\<close>

theorem failed_event_never_retried:
  assumes "webhooks_post_stripe constructEvent sessions_retrieve body sig d =
             (Inl (HTTPException 500 m), d1)"
  shows "\<exists>event row. constructEvent body sig = Inr event \<and>
            find (\<lambda>r. we_id r = ev_id event) (stripe_webhook_events d1) = Some row \<and>
            we_error row \<noteq> None \<and>
            (\<forall>body' sig' retrieve'. carries constructEvent (ev_id event) (body', sig') \<longrightarrow>
               webhooks_post_stripe constructEvent retrieve' body' sig' d1 =
                 (Inr Received_duplicate, d1))"
proof (cases "constructEvent body sig")
  case (Inl msg)
  then show ?thesis using assms by (simp add: webhooks_post_stripe_def)
next
  case (Inr event)
  from assms Inr obtain msg d' where d1: "d1 = sql_upsert_event_error event msg d'"
    by (auto simp: webhooks_post_stripe_def split: if_splits prod.splits option.splits)
  obtain row where row: "find (\<lambda>r. we_id r = ev_id event) (stripe_webhook_events d1) = Some row"
      "we_error row = Some msg"
    using upsert_event_error_row[of event msg d'] d1 by auto
  have "webhooks_post_stripe constructEvent retrieve' body' sig' d1 = (Inr Received_duplicate, d1)"
    if "carries constructEvent (ev_id event) (body', sig')" for body' sig' retrieve'
    using duplicate_delivery[OF that, of d1 retrieve'] row by simp
  then show ?thesis using Inr row by auto
qed

text \<open>The checkout whose second line item cannot be inserted: 500 on the first
  delivery, duplicate on the second.\<close>

theorem failed_event_never_retried_witness:
  "fst (webhooks_post_stripe ex_constructEvent ex_retrieve ''broken'' (Some ''valid'') ex_db) =
     Inl (HTTPException 500 ''Webhook processing failed'') \<and>
   carries ex_constructEvent (ev_id ex_broken_event) (''broken'', Some ''valid'') \<and>
   webhooks_post_stripe ex_constructEvent ex_retrieve ''broken'' (Some ''valid'')
       (snd (webhooks_post_stripe ex_constructEvent ex_retrieve ''broken'' (Some ''valid'') ex_db)) =
     (Inr Received_duplicate,
      snd (webhooks_post_stripe ex_constructEvent ex_retrieve ''broken'' (Some ''valid'') ex_db))"
proof -
  define d1 where
    "d1 = snd (webhooks_post_stripe ex_constructEvent ex_retrieve ''broken'' (Some ''valid'') ex_db)"
  have err: "fst (webhooks_post_stripe ex_constructEvent ex_retrieve ''broken'' (Some ''valid'') ex_db)
      = Inl (HTTPException 500 ''Webhook processing failed'')"
    by (simp add: webhook_eval)
  then have first:
    "webhooks_post_stripe ex_constructEvent ex_retrieve ''broken'' (Some ''valid'') ex_db =
       (Inl (HTTPException 500 ''Webhook processing failed''), d1)"
    by (simp add: d1_def prod_eq_iff)
  have ce: "ex_constructEvent ''broken'' (Some ''valid'') = Inr ex_broken_event"
    by (simp add: ex_constructEvent_def)
  then have again: "carries ex_constructEvent (ev_id ex_broken_event) (''broken'', Some ''valid'')"
    by (simp add: carries_def)
  from failed_event_never_retried[OF first] ce again
  have "webhooks_post_stripe ex_constructEvent ex_retrieve ''broken'' (Some ''valid'') d1 =
      (Inr Received_duplicate, d1)"
    by auto
  then show ?thesis using err again by (simp add: d1_def)
qed

subsection \<open>A settlement that raises\<close>

text \<open>
  C2 (amended). Settlement of a verified payment-succeeded event that the ledger does not
  hold yet is not atomic; its statements are committed one by one. If the event carries
  no cart identifier, processing ends at once: nothing is written but the ledger row,
  which records a success, and the answer is \<open>{received: true}\<close>. If it carries one
  and processing runs to its end, the Order, one OrderItem per line item, the stock
  decrements and the cart clearing are all visible and the event is recorded without an
  error. When processing raises, the database stays as the statements that ran have
  left it (the cart is not cleared, and the Order may already be there), a ledger row
  with the message of the error is written instead, and the caller gets a 500.
\<close>

theorem settlement_statement_by_statement:
  assumes ce: "constructEvent body sig = Inr event"
    and unseen: "find (\<lambda>r. we_id r = ev_id event) (stripe_webhook_events d) = None"
    and ev: "ev_data event = Checkout_session_completed session"
  shows "(cs_cart_id session = None \<longrightarrow>
            processStripeEvent sessions_retrieve event d = (None, d) \<and>
            webhooks_post_stripe constructEvent sessions_retrieve body sig d =
              (Inr Received,
               d\<lparr>stripe_webhook_events := stripe_webhook_events d @
                    [\<lparr>we_id = ev_id event, we_type = ''checkout.session.completed'',
                      we_payload = event, we_error = None\<rparr>]\<rparr>)) \<and>
         (\<forall>cartId d1. cs_cart_id session = Some cartId \<and>
            processStripeEvent sessions_retrieve event d = (None, d1) \<longrightarrow>
            (\<exists>fullSession. sessions_retrieve (cs_id session) = Inr fullSession \<and>
               map (\<lambda>r. r\<lparr>oi_id := 0\<rparr>) (order_items d1) =
                 map (\<lambda>r. r\<lparr>oi_id := 0\<rparr>) (order_items d) @
                 map (\<lambda>li. order_item_values 0 (next_uuid d) (the (li_product_id li)) li)
                   (case fullSession of None \<Rightarrow> [] | Some l \<Rightarrow> l) \<and>
               variants d1 =
                 map (\<lambda>v. v\<lparr>v_stock_qty :=
                                settled_stock (case fullSession of None \<Rightarrow> [] | Some l \<Rightarrow> l) v\<rparr>)
                   (variants d)) \<and>
            orders d1 = orders d @ [order_values (next_uuid d) (cs_user_id session) session] \<and>
            cart_items d1 = filter (\<lambda>r. ci_cart_id r \<noteq> cartId) (cart_items d) \<and>
            webhooks_post_stripe constructEvent sessions_retrieve body sig d =
              (Inr Received,
               d1\<lparr>stripe_webhook_events := stripe_webhook_events d @
                    [\<lparr>we_id = ev_id event, we_type = ''checkout.session.completed'',
                      we_payload = event, we_error = None\<rparr>]\<rparr>)) \<and>
         (\<forall>err d1. processStripeEvent sessions_retrieve event d = (Some err, d1) \<longrightarrow>
            cs_cart_id session \<noteq> None \<and>
            cart_items d1 = cart_items d \<and>
            (orders d1 = orders d \<or>
             orders d1 = orders d @ [order_values (next_uuid d) (cs_user_id session) session]) \<and>
            webhooks_post_stripe constructEvent sessions_retrieve body sig d =
              (Inl (HTTPException 500 ''Webhook processing failed''),
               d1\<lparr>stripe_webhook_events := stripe_webhook_events d @
                    [\<lparr>we_id = ev_id event, we_type = ''checkout.session.completed'',
                      we_payload = event, we_error = Some (message err)\<rparr>]\<rparr>))"
proof (intro conjI allI impI)
  assume none: "cs_cart_id session = None"
  from ev none show run: "processStripeEvent sessions_retrieve event d = (None, d)"
    by (simp add: processStripeEvent_def)
  show "webhooks_post_stripe constructEvent sessions_retrieve body sig d =
      (Inr Received,
       d\<lparr>stripe_webhook_events := stripe_webhook_events d @
            [\<lparr>we_id = ev_id event, we_type = ''checkout.session.completed'',
              we_payload = event, we_error = None\<rparr>]\<rparr>)"
    using webhook_unseen[where constructEvent=constructEvent and body=body and sig=sig,
        OF ce unseen run] ev by simp
next
  fix cartId d1
  assume a: "cs_cart_id session = Some cartId \<and>
      processStripeEvent sessions_retrieve event d = (None, d1)"
  then have cart: "cs_cart_id session = Some cartId"
    and run: "processStripeEvent sessions_retrieve event d = (None, d1)"
    by simp_all
  from checkout_completed_retrieved[OF ev cart run] obtain fullSession where
    full: "sessions_retrieve (cs_id session) = Inr fullSession" by blast
  note eff = checkout_completed_effects[OF ev cart full run]
  from full eff show "\<exists>fullSession. sessions_retrieve (cs_id session) = Inr fullSession \<and>
      map (\<lambda>r. r\<lparr>oi_id := 0\<rparr>) (order_items d1) =
        map (\<lambda>r. r\<lparr>oi_id := 0\<rparr>) (order_items d) @
        map (\<lambda>li. order_item_values 0 (next_uuid d) (the (li_product_id li)) li)
          (case fullSession of None \<Rightarrow> [] | Some l \<Rightarrow> l) \<and>
      variants d1 =
        map (\<lambda>v. v\<lparr>v_stock_qty :=
                       settled_stock (case fullSession of None \<Rightarrow> [] | Some l \<Rightarrow> l) v\<rparr>)
          (variants d)"
    by blast
  from eff show "orders d1 = orders d @ [order_values (next_uuid d) (cs_user_id session) session]"
    by blast
  from eff show "cart_items d1 = filter (\<lambda>r. ci_cart_id r \<noteq> cartId) (cart_items d)"
    by blast
  show "webhooks_post_stripe constructEvent sessions_retrieve body sig d =
      (Inr Received,
       d1\<lparr>stripe_webhook_events := stripe_webhook_events d @
            [\<lparr>we_id = ev_id event, we_type = ''checkout.session.completed'',
              we_payload = event, we_error = None\<rparr>]\<rparr>)"
    using webhook_unseen[where constructEvent=constructEvent and body=body and sig=sig,
        OF ce unseen run] ev by simp
next
  fix err d1
  assume run: "processStripeEvent sessions_retrieve event d = (Some err, d1)"
  show some: "cs_cart_id session \<noteq> None"
  proof
    assume "cs_cart_id session = None"
    with ev have "processStripeEvent sessions_retrieve event d = (None, d)"
      by (simp add: processStripeEvent_def)
    with run show False by simp
  qed
  then obtain cartId where cart: "cs_cart_id session = Some cartId" by blast
  note part = checkout_completed_raised[OF ev cart run]
  from part show "cart_items d1 = cart_items d" by blast
  from part show "orders d1 = orders d \<or>
      orders d1 = orders d @ [order_values (next_uuid d) (cs_user_id session) session]"
    by blast
  show "webhooks_post_stripe constructEvent sessions_retrieve body sig d =
      (Inl (HTTPException 500 ''Webhook processing failed''),
       d1\<lparr>stripe_webhook_events := stripe_webhook_events d @
            [\<lparr>we_id = ev_id event, we_type = ''checkout.session.completed'',
              we_payload = event, we_error = Some (message err)\<rparr>]\<rparr>)"
    using webhook_unseen[where constructEvent=constructEvent and body=body and sig=sig,
        OF ce unseen run] ev by simp
qed

text \<open>The checkout whose second line item cannot be inserted is answered 500 and keeps
  what \<open>processStripeEvent\<close> had written, its Order included; the paid checkout runs
  to its end and clears the cart; the session that names no cart is acknowledged and
  leaves only its ledger row.\<close>

theorem settlement_statement_by_statement_witness:
  "ex_constructEvent ''broken'' (Some ''valid'') = Inr ex_broken_event \<and>
   find (\<lambda>r. we_id r = ev_id ex_broken_event) (stripe_webhook_events ex_db) = None \<and>
   fst (processStripeEvent ex_retrieve ex_broken_event ex_db) =
     Some (DbError (Not_null_violation ''order_items'' ''product_id'')) \<and>
   webhooks_post_stripe ex_constructEvent ex_retrieve ''broken'' (Some ''valid'') ex_db =
     (Inl (HTTPException 500 ''Webhook processing failed''),
      (snd (processStripeEvent ex_retrieve ex_broken_event ex_db))
        \<lparr>stripe_webhook_events :=
           [\<lparr>we_id = ''evt_2'', we_type = ''checkout.session.completed'',
             we_payload = ex_broken_event,
             we_error = Some (Pg_message (Not_null_violation ''order_items'' ''product_id''))\<rparr>]\<rparr>) \<and>
   length (orders (snd (processStripeEvent ex_retrieve ex_broken_event ex_db))) = 1 \<and>
   ex_constructEvent ''paid'' (Some ''valid'') = Inr ex_event \<and>
   fst (processStripeEvent ex_retrieve ex_event ex_db) = None \<and>
   fst (webhooks_post_stripe ex_constructEvent ex_retrieve ''paid'' (Some ''valid'') ex_db) =
     Inr Received \<and>
   cart_items (snd (processStripeEvent ex_retrieve ex_event ex_db)) = [] \<and>
   ex_constructEvent ''uncorrelated'' (Some ''valid'') = Inr ex_uncorrelated_event \<and>
   webhooks_post_stripe ex_constructEvent ex_retrieve ''uncorrelated'' (Some ''valid'') ex_db =
     (Inr Received,
      ex_db\<lparr>stripe_webhook_events :=
               [\<lparr>we_id = ''evt_5'', we_type = ''checkout.session.completed'',
                 we_payload = ex_uncorrelated_event, we_error = None\<rparr>]\<rparr>)"
proof -
  have ce: "ex_constructEvent ''broken'' (Some ''valid'') = Inr ex_broken_event"
    and ce': "ex_constructEvent ''paid'' (Some ''valid'') = Inr ex_event"
    and ce'': "ex_constructEvent ''uncorrelated'' (Some ''valid'') = Inr ex_uncorrelated_event"
    by (simp_all add: ex_constructEvent_def)
  have unseen: "find (\<lambda>r. we_id r = ev_id ex_broken_event) (stripe_webhook_events ex_db) = None"
    and unseen': "find (\<lambda>r. we_id r = ev_id ex_event) (stripe_webhook_events ex_db) = None"
    and unseen'': "find (\<lambda>r. we_id r = ev_id ex_uncorrelated_event) (stripe_webhook_events ex_db) = None"
    by (simp_all add: ex_db_def)
  have ev: "ev_data ex_broken_event = Checkout_session_completed
      (ex_session\<lparr>cs_id := ''cs_2'', cs_payment_intent := Some ''pi_2''\<rparr>)"
    and ev': "ev_data ex_event = Checkout_session_completed ex_session"
    and ev'': "ev_data ex_uncorrelated_event = Checkout_session_completed
      (ex_session\<lparr>cs_id := ''cs_5'', cs_cart_id := None, cs_payment_intent := Some ''pi_5''\<rparr>)"
    by (simp_all add: ex_broken_event_def ex_event_def ex_uncorrelated_event_def)
  have cart': "cs_cart_id ex_session = Some 7"
    and cart'': "cs_cart_id (ex_session\<lparr>cs_id := ''cs_5'', cs_cart_id := None,
        cs_payment_intent := Some ''pi_5''\<rparr>) = None"
    by (simp_all add: ex_session_def)
  have raised: "fst (processStripeEvent ex_retrieve ex_broken_event ex_db) =
     Some (DbError (Not_null_violation ''order_items'' ''product_id''))"
    by (simp add: webhook_eval)
  then have run: "processStripeEvent ex_retrieve ex_broken_event ex_db =
     (Some (DbError (Not_null_violation ''order_items'' ''product_id'')),
      snd (processStripeEvent ex_retrieve ex_broken_event ex_db))"
    by (simp add: prod_eq_iff)
  have finished: "fst (processStripeEvent ex_retrieve ex_event ex_db) = None"
    by (simp add: webhook_eval)
  then have run': "processStripeEvent ex_retrieve ex_event ex_db =
     (None, snd (processStripeEvent ex_retrieve ex_event ex_db))"
    by (simp add: prod_eq_iff)
  have one: "length (orders (snd (processStripeEvent ex_retrieve ex_broken_event ex_db))) = 1"
    by (simp add: webhook_eval)
  have empty: "stripe_webhook_events ex_db = []"
    by (simp add: ex_db_def)
  note t = settlement_statement_by_statement[where constructEvent=ex_constructEvent
      and body="''broken''" and sig="Some ''valid''" and sessions_retrieve=ex_retrieve,
      OF ce unseen ev]
  note t' = settlement_statement_by_statement[where constructEvent=ex_constructEvent
      and body="''paid''" and sig="Some ''valid''" and sessions_retrieve=ex_retrieve,
      OF ce' unseen' ev']
  note t'' = settlement_statement_by_statement[where constructEvent=ex_constructEvent
      and body="''uncorrelated''" and sig="Some ''valid''" and sessions_retrieve=ex_retrieve,
      OF ce'' unseen'' ev'']
  note thrown = conjunct2[OF conjunct2[OF t], rule_format, OF run]
  note completed = conjunct1[OF conjunct2[OF t'], rule_format, OF conjI[OF cart' run']]
  note skipped = conjunct1[OF t'', rule_format, OF cart'']
  from thrown have failed:
    "webhooks_post_stripe ex_constructEvent ex_retrieve ''broken'' (Some ''valid'') ex_db =
     (Inl (HTTPException 500 ''Webhook processing failed''),
      (snd (processStripeEvent ex_retrieve ex_broken_event ex_db))
        \<lparr>stripe_webhook_events := stripe_webhook_events ex_db @
           [\<lparr>we_id = ev_id ex_broken_event, we_type = ''checkout.session.completed'',
             we_payload = ex_broken_event,
             we_error = Some (message (DbError (Not_null_violation ''order_items'' ''product_id'')))\<rparr>]\<rparr>)"
    by blast
  from completed have ok:
    "fst (webhooks_post_stripe ex_constructEvent ex_retrieve ''paid'' (Some ''valid'') ex_db) = Inr Received"
    by (simp only: fst_conv)
  from completed have cleared: "cart_items (snd (processStripeEvent ex_retrieve ex_event ex_db)) =
       filter (\<lambda>r. ci_cart_id r \<noteq> 7) (cart_items ex_db)"
    by blast
  have "filter (\<lambda>r. ci_cart_id r \<noteq> 7) (cart_items ex_db) = []"
    by (simp add: ex_db_def)
  with cleared have cleared': "cart_items (snd (processStripeEvent ex_retrieve ex_event ex_db)) = []"
    by simp
  have id: "ev_id ex_broken_event = ''evt_2''" by (simp add: ex_broken_event_def)
  have id'': "ev_id ex_uncorrelated_event = ''evt_5''" by (simp add: ex_uncorrelated_event_def)
  have msg: "message (DbError (Not_null_violation ''order_items'' ''product_id'')) =
      Pg_message (Not_null_violation ''order_items'' ''product_id'')"
    by simp
  from failed have failed': "webhooks_post_stripe ex_constructEvent ex_retrieve ''broken'' (Some ''valid'') ex_db =
     (Inl (HTTPException 500 ''Webhook processing failed''),
      (snd (processStripeEvent ex_retrieve ex_broken_event ex_db))
        \<lparr>stripe_webhook_events :=
           [\<lparr>we_id = ''evt_2'', we_type = ''checkout.session.completed'',
             we_payload = ex_broken_event,
             we_error = Some (Pg_message (Not_null_violation ''order_items'' ''product_id''))\<rparr>]\<rparr>)"
    by (simp only: empty id msg append_Nil)
  from conjunct2[OF skipped] have acked:
    "webhooks_post_stripe ex_constructEvent ex_retrieve ''uncorrelated'' (Some ''valid'') ex_db =
     (Inr Received,
      ex_db\<lparr>stripe_webhook_events :=
               [\<lparr>we_id = ''evt_5'', we_type = ''checkout.session.completed'',
                 we_payload = ex_uncorrelated_event, we_error = None\<rparr>]\<rparr>)"
    by (simp only: empty id'' append_Nil)
  show ?thesis
    by (intro conjI) (fact ce unseen raised failed' one ce' finished ok cleared' ce'' acked)+
qed

text \<open>A settlement that is visible in part: the second of two line items has no product
  identifier, so its insert raises. The Order, the first OrderItem and the stock
  decrement (4 to 1) stay; the cart keeps both lines; the ledger row carries the
  message of the not-null violation.\<close>

theorem settlement_atomic_counterexample:
  "fst (webhooks_post_stripe ex_constructEvent ex_retrieve ''broken'' (Some ''valid'') ex_db) =
     Inl (HTTPException 500 ''Webhook processing failed'') \<and>
   map o_stripe_session_id
     (orders (snd (webhooks_post_stripe ex_constructEvent ex_retrieve ''broken'' (Some ''valid'')
        ex_db))) = [Some ''cs_2''] \<and>
   length ex_broken_line_items = 2 \<and>
   map oi_product_id
     (order_items (snd (webhooks_post_stripe ex_constructEvent ex_retrieve ''broken''
        (Some ''valid'') ex_db))) = [11] \<and>
   map v_stock_qty (variants ex_db) = [4] \<and>
   map v_stock_qty
     (variants (snd (webhooks_post_stripe ex_constructEvent ex_retrieve ''broken'' (Some ''valid'')
        ex_db))) = [1] \<and>
   map ci_id
     (cart_items (snd (webhooks_post_stripe ex_constructEvent ex_retrieve ''broken''
        (Some ''valid'') ex_db))) = [20, 21] \<and>
   map we_error
     (stripe_webhook_events (snd (webhooks_post_stripe ex_constructEvent ex_retrieve ''broken''
        (Some ''valid'') ex_db))) =
     [Some (Pg_message (Not_null_violation ''order_items'' ''product_id''))]"
  by (simp add: webhook_eval)

subsection \<open>Refunds\<close>

text \<open>
  C5 (amended). For a verified, unseen charge-refunded event the intake answers
  \<open>{received: true}\<close>, sets every Order with that payment intent to \<open>refunded\<close> and
  records the event without an error text. When no Order matches, no Order changes and
  the event is recorded in the same way: as handled, not as failed.
\<close>

theorem charge_refunded_recorded:
  assumes ce: "constructEvent body sig = Inr event"
    and unseen: "find (\<lambda>r. we_id r = ev_id event) (stripe_webhook_events d) = None"
    and ev: "ev_data event = Charge_refunded payment_intent"
  shows "webhooks_post_stripe constructEvent sessions_retrieve body sig d =
           (Inr Received,
            d\<lparr>orders :=
                 map (\<lambda>r. if payment_intent \<noteq> None \<and> o_stripe_payment_intent_id r = payment_intent
                           then r\<lparr>o_status := Refunded\<rparr> else r) (orders d),
              stripe_webhook_events := stripe_webhook_events d @
                 [\<lparr>we_id = ev_id event, we_type = ''charge.refunded'',
                   we_payload = event, we_error = None\<rparr>]\<rparr>) \<and>
         (find (\<lambda>r. payment_intent \<noteq> None \<and> o_stripe_payment_intent_id r = payment_intent)
            (orders d) = None \<longrightarrow>
          orders (snd (webhooks_post_stripe constructEvent sessions_retrieve body sig d)) = orders d)"
proof -
  define d1 where "d1 = d\<lparr>orders :=
                 map (\<lambda>r. if payment_intent \<noteq> None \<and> o_stripe_payment_intent_id r = payment_intent
                           then r\<lparr>o_status := Refunded\<rparr> else r) (orders d)\<rparr>"
  have run: "processStripeEvent sessions_retrieve event d = (None, d1)"
    using ev by (simp add: processStripeEvent_def d1_def)
  have main: "webhooks_post_stripe constructEvent sessions_retrieve body sig d =
      (Inr Received,
       d1\<lparr>stripe_webhook_events := stripe_webhook_events d @
            [\<lparr>we_id = ev_id event, we_type = ''charge.refunded'',
              we_payload = event, we_error = None\<rparr>]\<rparr>)"
    using webhook_unseen[where constructEvent=constructEvent and body=body and sig=sig,
        OF ce unseen run] ev by simp
  have same: "find (\<lambda>r. payment_intent \<noteq> None \<and> o_stripe_payment_intent_id r = payment_intent)
            (orders d) = None \<Longrightarrow> orders d1 = orders d"
    by (auto simp: d1_def find_None_iff intro!: map_idI)
  show ?thesis using main same by (simp add: d1_def)
qed

theorem charge_refunded_recorded_witness:
  "ex_constructEvent ''refund-paid'' (Some ''valid'') = Inr ex_refund_paid_event \<and>
   find (\<lambda>r. we_id r = ev_id ex_refund_paid_event) (stripe_webhook_events ex_db_paid) = None \<and>
   ev_data ex_refund_paid_event = Charge_refunded (Some ''pi_1'') \<and>
   fst (webhooks_post_stripe ex_constructEvent ex_retrieve ''refund-paid'' (Some ''valid'') ex_db_paid)
     = Inr Received \<and>
   map o_status (orders ex_db_paid) = [Paid] \<and>
   map o_status (orders (snd (webhooks_post_stripe ex_constructEvent ex_retrieve ''refund-paid''
     (Some ''valid'') ex_db_paid))) = [Refunded] \<and>
   find (\<lambda>r. Some ''pi_1'' \<noteq> None \<and> o_stripe_payment_intent_id r = Some ''pi_1'') (orders ex_db) = None \<and>
   orders (snd (webhooks_post_stripe ex_constructEvent ex_retrieve ''refund-paid'' (Some ''valid'')
     ex_db)) = orders ex_db"
proof -
  have ce: "ex_constructEvent ''refund-paid'' (Some ''valid'') = Inr ex_refund_paid_event"
    by (simp add: ex_constructEvent_def)
  have ev: "ev_data ex_refund_paid_event = Charge_refunded (Some ''pi_1'')"
    by (simp add: ex_refund_paid_event_def)
  have unseen1: "find (\<lambda>r. we_id r = ev_id ex_refund_paid_event) (stripe_webhook_events ex_db_paid) = None"
    by (simp add: ex_db_paid_def ex_db_def)
  have unseen2: "find (\<lambda>r. we_id r = ev_id ex_refund_paid_event) (stripe_webhook_events ex_db) = None"
    by (simp add: ex_db_def)
  have nomatch: "find (\<lambda>r. Some ''pi_1'' \<noteq> None \<and> o_stripe_payment_intent_id r = Some ''pi_1'') (orders ex_db) = None"
    by (simp add: ex_db_def)
  have before: "map o_status (orders ex_db_paid) = [Paid]"
    and pi: "map o_stripe_payment_intent_id (orders ex_db_paid) = [Some ''pi_1'']"
    by (simp_all add: ex_db_paid_def order_values_def ex_session_def)
  note t1 = charge_refunded_recorded[where constructEvent=ex_constructEvent
      and body="''refund-paid''" and sig="Some ''valid''" and sessions_retrieve=ex_retrieve,
      OF ce unseen1 ev]
  note t2 = charge_refunded_recorded[where constructEvent=ex_constructEvent
      and body="''refund-paid''" and sig="Some ''valid''" and sessions_retrieve=ex_retrieve,
      OF ce unseen2 ev]
  from t1 have ack: "fst (webhooks_post_stripe ex_constructEvent ex_retrieve ''refund-paid''
      (Some ''valid'') ex_db_paid) = Inr Received"
    by simp
  from t1 have after: "map o_status (orders (snd (webhooks_post_stripe ex_constructEvent ex_retrieve
      ''refund-paid'' (Some ''valid'') ex_db_paid))) = [Refunded]"
    by (simp add: ex_db_paid_def order_values_def ex_session_def)
  from t2 nomatch have same: "orders (snd (webhooks_post_stripe ex_constructEvent ex_retrieve
      ''refund-paid'' (Some ''valid'') ex_db)) = orders ex_db"
    by blast
  show ?thesis using ce ev unseen1 nomatch before ack after same by simp
qed

text \<open>A refund whose payment intent no Order carries: the answer is
  \<open>{received: true}\<close> and the ledger row has no error text.\<close>

theorem refund_without_order_counterexample:
  "ex_constructEvent ''refund'' (Some ''valid'') = Inr ex_refund_event \<and>
   ev_data ex_refund_event = Charge_refunded (Some ''pi_9'') \<and>
   filter (\<lambda>r. o_stripe_payment_intent_id r = Some ''pi_9'') (orders ex_db) = [] \<and>
   fst (webhooks_post_stripe ex_constructEvent ex_retrieve ''refund'' (Some ''valid'') ex_db) =
     Inr Received \<and>
   map (\<lambda>r. (we_id r, we_type r, we_error r))
     (stripe_webhook_events (snd (webhooks_post_stripe ex_constructEvent ex_retrieve ''refund''
        (Some ''valid'') ex_db))) = [(''evt_3'', ''charge.refunded'', None)]"
  by (simp add: webhook_eval)

section \<open>The stock floor\<close>

lemma decrement_floor:
  assumes "stock_floor d"
  shows "stock_floor (snd (sql_decrement_stock vid q d))"
proof (cases "\<not> int4 q \<or>
    find (\<lambda>v. v_id v = vid \<and> \<not> int4 (v_stock_qty v - q)) (variants d) \<noteq> None")
  case True
  with assms show ?thesis by (simp add: sql_decrement_stock_def)
next
  case False
  then have inr: "\<forall>v \<in> set (variants d). v_id v = vid \<longrightarrow> int4 (v_stock_qty v - q)"
    by (auto simp: find_None_iff)
  have zero: "int4 0" by (simp add: int4_def)
  have "\<forall>v \<in> set (variants d). v_id v = vid \<longrightarrow>
          0 \<le> max 0 (v_stock_qty v - q) \<and> int4 (max 0 (v_stock_qty v - q))"
    using inr zero by (auto simp: max_def)
  with assms False show ?thesis
    by (auto simp: sql_decrement_stock_def stock_floor_def list_all_iff)
qed

lemma settle_line_items_floor:
  "stock_floor d \<Longrightarrow> stock_floor (snd (settle_line_items oid lis d))"
proof (induction lis arbitrary: d)
  case Nil
  then show ?case by simp
next
  case (Cons li lis)
  obtain e d1 where step: "sql_insert_order_item oid li d = (e, d1)"
    by (cases "sql_insert_order_item oid li d")
  from insert_order_item_frame[OF step] Cons.prems have f1: "stock_floor d1"
    by (simp add: stock_floor_def)
  obtain e2 d2 where dec:
    "(case li_variant_id li of None \<Rightarrow> (None, d1)
      | Some vid \<Rightarrow> sql_decrement_stock vid (li_qty li) d1) = (e2, d2)"
    by (cases "(case li_variant_id li of None \<Rightarrow> (None, d1)
      | Some vid \<Rightarrow> sql_decrement_stock vid (li_qty li) d1)")
  have f2: "stock_floor d2"
  proof (cases "li_variant_id li")
    case None
    with dec f1 show ?thesis by simp
  next
    case (Some vid)
    with dec decrement_floor[OF f1, of vid "li_qty li"] show ?thesis by simp
  qed
  show ?case
  proof (cases e)
    case (Some err)
    with step f1 show ?thesis by simp
  next
    case None
    note e = this
    show ?thesis
    proof (cases e2)
      case (Some err)
      with step e dec f2 show ?thesis by simp
    next
      case None
      with Cons.IH[OF f2] step e dec show ?thesis by simp
    qed
  qed
qed

lemma processStripeEvent_floor:
  assumes "stock_floor d"
  shows "stock_floor (snd (processStripeEvent sessions_retrieve event d))"
proof (cases "ev_data event")
  case (Checkout_session_completed session)
  show ?thesis
  proof (cases "cs_cart_id session")
    case None
    with Checkout_session_completed assms show ?thesis by (simp add: processStripeEvent_def)
  next
    case (Some cartId)
    show ?thesis
    proof (cases "sessions_retrieve (cs_id session)")
      case (Inl e)
      with Checkout_session_completed Some assms show ?thesis by (simp add: processStripeEvent_def)
    next
      case (Inr fullSession)
      obtain r1 d2 where ins: "sql_insert_order (cs_user_id session) session d = (r1, d2)"
        by (cases "sql_insert_order (cs_user_id session) session d")
      from insert_order_frame[OF ins] assms have f1: "stock_floor d2" by (simp add: stock_floor_def)
      show ?thesis
      proof (cases r1)
        case (Inl e)
        with Checkout_session_completed Some Inr ins f1 show ?thesis
          by (simp add: processStripeEvent_def Let_def)
      next
        case (Inr oid)
        note oid = this
        obtain r2 d3 where st:
          "settle_line_items oid (case fullSession of None \<Rightarrow> [] | Some l \<Rightarrow> l) d2 = (r2, d3)"
          by (cases "settle_line_items oid (case fullSession of None \<Rightarrow> [] | Some l \<Rightarrow> l) d2")
        from settle_line_items_floor[OF f1, of oid "case fullSession of None \<Rightarrow> [] | Some l \<Rightarrow> l"] st
        have f2: "stock_floor d3" by simp
        obtain r3 d4 where lk:
          "(if cs_user_id session \<noteq> None \<and> truthy (cs_customer session)
            then sql_link_customer (the (cs_user_id session)) (the (cs_customer session)) d3
            else (None, d3)) = (r3, d4)"
          by (cases "(if cs_user_id session \<noteq> None \<and> truthy (cs_customer session)
            then sql_link_customer (the (cs_user_id session)) (the (cs_customer session)) d3
            else (None, d3))")
        have f3: "stock_floor d4"
          using lk link_customer_frame f2 by (auto simp: stock_floor_def split: if_splits)
        from Checkout_session_completed Some \<open>sessions_retrieve (cs_id session) = Inr fullSession\<close>
          ins oid st lk f2 f3
        show ?thesis
          by (cases r2; cases r3) (auto simp: processStripeEvent_def Let_def stock_floor_def)
      qed
    qed
  qed
qed (use assms in \<open>auto simp: processStripeEvent_def stock_floor_def\<close>)

lemma webhook_floor:
  assumes "stock_floor d"
  shows "stock_floor (snd (webhooks_post_stripe constructEvent sessions_retrieve body sig d))"
proof -
  have up: "stock_floor x \<Longrightarrow> stock_floor (sql_upsert_event_error e m x)" for x e m
    by (simp add: stock_floor_def sql_upsert_event_error_def)
  have ins: "stock_floor x \<Longrightarrow> stock_floor (snd (sql_insert_event e x))" for x e
    by (simp add: stock_floor_def sql_insert_event_def)
  show ?thesis
  proof (cases "constructEvent body sig")
    case (Inl msg)
    with assms show ?thesis by (simp add: webhooks_post_stripe_def)
  next
    case (Inr event)
    obtain r d1 where run: "processStripeEvent sessions_retrieve event d = (r, d1)"
      by (cases "processStripeEvent sessions_retrieve event d")
    from processStripeEvent_floor[OF assms, of sessions_retrieve event] run
    have f1: "stock_floor d1" by simp
    obtain r' d2 where ie: "sql_insert_event event d1 = (r', d2)"
      by (cases "sql_insert_event event d1")
    from ins[OF f1, of event] ie have f2: "stock_floor d2" by simp
    from Inr run ie assms f1 f2 up show ?thesis
      by (cases r; cases r') (auto simp: webhooks_post_stripe_def)
  qed
qed

lemma admin_patch_floor:
  assumes "stock_floor d"
  shows "stock_floor (snd (admin_patch_variant_stock vid body d))"
proof (cases "sb_stock_qty body")
  case (Some stock_qty)
  show ?thesis
  proof (cases "\<not> int4 stock_qty \<or>
      (stock_qty < 0 \<and> find (\<lambda>v. v_id v = vid) (variants d) \<noteq> None)")
    case True
    with Some assms show ?thesis by (auto simp: admin_patch_variant_stock_def)
  next
    case False
    then have ok: "int4 stock_qty" and row: "\<forall>v \<in> set (variants d). v_id v = vid \<longrightarrow> 0 \<le> stock_qty"
      by (auto simp: find_None_iff)
    from Some False assms row ok show ?thesis
      by (auto simp: admin_patch_variant_stock_def stock_floor_def list_all_iff Let_def
          split: option.splits)
  qed
next
  case None
  note abs = this
  show ?thesis
  proof (cases "sb_adjustment body")
    case None
    with abs assms show ?thesis by (simp add: admin_patch_variant_stock_def)
  next
    case (Some adjustment)
    show ?thesis
    proof (cases "\<not> int4 adjustment \<or>
        find (\<lambda>v. v_id v = vid \<and> \<not> int4 (v_stock_qty v + adjustment)) (variants d) \<noteq> None")
      case True
      with abs Some assms show ?thesis by (simp add: admin_patch_variant_stock_def)
    next
      case False
      then have inr: "\<forall>v \<in> set (variants d). v_id v = vid \<longrightarrow> int4 (v_stock_qty v + adjustment)"
        by (auto simp: find_None_iff)
      have zero: "int4 0" by (simp add: int4_def)
      have new: "\<forall>v \<in> set (variants d). v_id v = vid \<longrightarrow>
          0 \<le> max 0 (v_stock_qty v + adjustment) \<and> int4 (max 0 (v_stock_qty v + adjustment))"
        using inr zero by (auto simp: max_def)
      from abs Some False assms new show ?thesis
        by (auto simp: admin_patch_variant_stock_def stock_floor_def list_all_iff Let_def
            split: option.splits)
    qed
  qed
qed

text \<open>
  C6 (amended). From a state in which every stock is a non-negative \<open>INT\<close>, every
  sequence of webhook deliveries and admin stock patches leaves every stock a
  non-negative \<open>INT\<close>. A settlement decrement of \<open>q\<close> (\<open>0 \<le> q\<close>) and an admin
  adjustment of \<open>a\<close> (\<open>a \<le> 0\<close>) that fit \<open>INT\<close> set the stock of the variant to
  zero when they would take it to zero or below, and to the difference otherwise; no
  other row changes. A decrement or an adjustment that does not fit \<open>INT\<close> raises
  \<open>Numeric_value_out_of_range\<close> and changes nothing: the stock is not set to zero.
\<close>

theorem stock_never_negative:
  assumes "stock_floor d"
  shows "stock_floor (foldl (\<lambda>s op. apply_stock_op constructEvent sessions_retrieve op s) d ops) \<and>
         (0 \<le> q \<and> int4 q \<longrightarrow>
            sql_decrement_stock vid q d =
              (None,
               d\<lparr>variants :=
                   map (\<lambda>v. if v_id v = vid
                             then v\<lparr>v_stock_qty := (if v_stock_qty v \<le> q then 0 else v_stock_qty v - q)\<rparr>
                             else v) (variants d)\<rparr>)) \<and>
         (\<not> int4 q \<longrightarrow>
            sql_decrement_stock vid q d = (Some (DbError Numeric_value_out_of_range), d)) \<and>
         (a \<le> 0 \<and> int4 a \<longrightarrow>
            snd (admin_patch_variant_stock vid \<lparr>sb_stock_qty = None, sb_adjustment = Some a\<rparr> d) =
              d\<lparr>variants :=
                  map (\<lambda>v. if v_id v = vid
                            then v\<lparr>v_stock_qty := (if v_stock_qty v + a \<le> 0 then 0 else v_stock_qty v + a)\<rparr>
                            else v) (variants d)\<rparr>) \<and>
         (\<not> int4 a \<longrightarrow>
            admin_patch_variant_stock vid \<lparr>sb_stock_qty = None, sb_adjustment = Some a\<rparr> d =
              (Inl (DbError Numeric_value_out_of_range), d))"
proof (intro conjI impI)
  have step: "stock_floor s \<Longrightarrow> stock_floor (apply_stock_op constructEvent sessions_retrieve op s)"
    for s op
    by (cases op) (simp_all add: webhook_floor admin_patch_floor)
  have run: "stock_floor s \<Longrightarrow>
      stock_floor (foldl (\<lambda>s op. apply_stock_op constructEvent sessions_retrieve op s) s ops)" for s
    by (induction ops arbitrary: s) (simp_all add: step)
  from run[OF assms]
  show "stock_floor (foldl (\<lambda>s op. apply_stock_op constructEvent sessions_retrieve op s) d ops)" .
next
  assume q: "0 \<le> q \<and> int4 q"
  have fits: "find (\<lambda>v. v_id v = vid \<and> \<not> int4 (v_stock_qty v - q)) (variants d) = None"
    using assms q by (auto simp: find_None_iff stock_floor_def list_all_iff int4_def)
  have same: "map (\<lambda>v. if v_id v = vid then v\<lparr>v_stock_qty := max 0 (v_stock_qty v - q)\<rparr> else v)
        (variants d) =
      map (\<lambda>v. if v_id v = vid
                then v\<lparr>v_stock_qty := (if v_stock_qty v \<le> q then 0 else v_stock_qty v - q)\<rparr>
                else v) (variants d)"
    by (rule map_cong) (auto simp: max_def)
  from q fits same show "sql_decrement_stock vid q d =
      (None,
       d\<lparr>variants :=
           map (\<lambda>v. if v_id v = vid
                     then v\<lparr>v_stock_qty := (if v_stock_qty v \<le> q then 0 else v_stock_qty v - q)\<rparr>
                     else v) (variants d)\<rparr>)"
    by (simp add: sql_decrement_stock_def)
next
  assume "\<not> int4 q"
  then show "sql_decrement_stock vid q d = (Some (DbError Numeric_value_out_of_range), d)"
    by (simp add: sql_decrement_stock_def)
next
  assume a: "a \<le> 0 \<and> int4 a"
  have fits: "find (\<lambda>v. v_id v = vid \<and> \<not> int4 (v_stock_qty v + a)) (variants d) = None"
    using assms a by (auto simp: find_None_iff stock_floor_def list_all_iff int4_def)
  have same: "map (\<lambda>v. if v_id v = vid then v\<lparr>v_stock_qty := max 0 (v_stock_qty v + a)\<rparr> else v)
        (variants d) =
      map (\<lambda>v. if v_id v = vid
                then v\<lparr>v_stock_qty := (if v_stock_qty v + a \<le> 0 then 0 else v_stock_qty v + a)\<rparr>
                else v) (variants d)"
    by (rule map_cong) (auto simp: max_def)
  from a fits same
  show "snd (admin_patch_variant_stock vid \<lparr>sb_stock_qty = None, sb_adjustment = Some a\<rparr> d) =
      d\<lparr>variants :=
          map (\<lambda>v. if v_id v = vid
                    then v\<lparr>v_stock_qty := (if v_stock_qty v + a \<le> 0 then 0 else v_stock_qty v + a)\<rparr>
                    else v) (variants d)\<rparr>"
    by (simp add: admin_patch_variant_stock_def Let_def split: option.splits)
next
  assume "\<not> int4 a"
  then show "admin_patch_variant_stock vid \<lparr>sb_stock_qty = None, sb_adjustment = Some a\<rparr> d =
      (Inl (DbError Numeric_value_out_of_range), d)"
    by (simp add: admin_patch_variant_stock_def)
qed

text \<open>Variant 30 starts at 4: the paid checkout takes it to 1, the second checkout
  (three more) to 0 and not below, and the adjustment of minus five leaves it at 0. A
  decrement of nine takes 4 to 0; a decrement of three thousand million is refused.\<close>

theorem stock_never_negative_witness:
  "stock_floor ex_db \<and>
   map v_stock_qty (variants ex_db) = [4] \<and>
   map v_stock_qty (variants (apply_stock_op ex_constructEvent ex_retrieve
       (Settlement ''paid'' (Some ''valid'')) ex_db)) = [1] \<and>
   map v_stock_qty
     (variants (foldl (\<lambda>s op. apply_stock_op ex_constructEvent ex_retrieve op s) ex_db
        ex_stock_ops)) = [0] \<and>
   stock_floor (foldl (\<lambda>s op. apply_stock_op ex_constructEvent ex_retrieve op s) ex_db ex_stock_ops) \<and>
   int4 9 \<and>
   fst (sql_decrement_stock 30 9 ex_db) = None \<and>
   map v_stock_qty (variants (snd (sql_decrement_stock 30 9 ex_db))) = [0] \<and>
   int4 (- 5) \<and>
   map v_stock_qty (variants (snd (admin_patch_variant_stock 30
       \<lparr>sb_stock_qty = None, sb_adjustment = Some (- 5)\<rparr> ex_db))) = [0] \<and>
   \<not> int4 3000000000 \<and>
   sql_decrement_stock 30 3000000000 ex_db = (Some (DbError Numeric_value_out_of_range), ex_db)"
proof -
  have start: "stock_floor ex_db" and four: "map v_stock_qty (variants ex_db) = [4]"
    by (simp_all add: stock_floor_def ex_db_def int4_def)
  have one: "map v_stock_qty (variants (apply_stock_op ex_constructEvent ex_retrieve
       (Settlement ''paid'' (Some ''valid'')) ex_db)) = [1]"
    by (simp add: webhook_eval)
  have zero: "map v_stock_qty
     (variants (foldl (\<lambda>s op. apply_stock_op ex_constructEvent ex_retrieve op s) ex_db
        ex_stock_ops)) = [0]"
    by (simp add: ex_stock_ops_def admin_patch_variant_stock_def webhook_eval)
  have nine: "int4 9" and five: "int4 (- 5)" and big: "\<not> int4 3000000000"
    by (simp_all add: int4_def)
  note t = stock_never_negative[OF start, where constructEvent=ex_constructEvent
      and sessions_retrieve=ex_retrieve and ops=ex_stock_ops and vid=30 and q=9 and a="- 5"]
  note t' = stock_never_negative[OF start, where constructEvent=ex_constructEvent
      and sessions_retrieve=ex_retrieve and ops=ex_stock_ops and vid=30 and q=3000000000
      and a="- 5"]
  from t have floor': "stock_floor (foldl (\<lambda>s op. apply_stock_op ex_constructEvent ex_retrieve op s)
      ex_db ex_stock_ops)"
    by (rule conjunct1)
  from conjunct1[OF conjunct2[OF t]] nine
  have dec: "sql_decrement_stock 30 9 ex_db =
      (None,
       ex_db\<lparr>variants :=
           map (\<lambda>v. if v_id v = 30
                     then v\<lparr>v_stock_qty := (if v_stock_qty v \<le> 9 then 0 else v_stock_qty v - 9)\<rparr>
                     else v) (variants ex_db)\<rparr>)"
    by simp
  have ran: "fst (sql_decrement_stock 30 9 ex_db) = None"
    by (simp only: dec fst_conv)
  have clamp: "map v_stock_qty (variants (snd (sql_decrement_stock 30 9 ex_db))) = [0]"
    unfolding dec snd_conv by (simp add: ex_db_def)
  from conjunct1[OF conjunct2[OF conjunct2[OF conjunct2[OF t]]]] five
  have adj: "snd (admin_patch_variant_stock 30 \<lparr>sb_stock_qty = None, sb_adjustment = Some (- 5)\<rparr> ex_db) =
      ex_db\<lparr>variants :=
          map (\<lambda>v. if v_id v = 30
                    then v\<lparr>v_stock_qty := (if v_stock_qty v + - 5 \<le> 0 then 0 else v_stock_qty v + - 5)\<rparr>
                    else v) (variants ex_db)\<rparr>"
    by simp
  have clamp': "map v_stock_qty (variants (snd (admin_patch_variant_stock 30
       \<lparr>sb_stock_qty = None, sb_adjustment = Some (- 5)\<rparr> ex_db))) = [0]"
    unfolding adj by (simp add: ex_db_def)
  from conjunct1[OF conjunct2[OF conjunct2[OF t']]] big
  have refused: "sql_decrement_stock 30 3000000000 ex_db =
      (Some (DbError Numeric_value_out_of_range), ex_db)"
    by blast
  show ?thesis
    by (intro conjI) (fact start four one zero floor' nine ran clamp five clamp' big refused)+
qed

text \<open>A decrement larger than the remaining stock that does not set it to zero: variant
  30 has four in stock, and an admin adjustment of minus three thousand million is
  outside \<open>INT\<close>, so the statement raises and the row keeps its four.\<close>

theorem stock_clamp_counterexample:
  "map v_stock_qty (variants ex_db) = [4] \<and>
   admin_patch_variant_stock 30 \<lparr>sb_stock_qty = None, sb_adjustment = Some (- 3000000000)\<rparr> ex_db =
     (Inl (DbError Numeric_value_out_of_range), ex_db) \<and>
   map v_stock_qty
     (variants (snd (admin_patch_variant_stock 30
        \<lparr>sb_stock_qty = None, sb_adjustment = Some (- 3000000000)\<rparr> ex_db))) = [4]"
  by (simp add: admin_patch_variant_stock_def int4_def ex_db_def)

end
